theory Spec2Isabelle
  imports Complex_Main
begin

section \<open>JavaScript values, exceptions and the platform\<close>

text \<open>
  Values that travel through the gateway and the tools are parsed JSON documents, plus
  \<open>undefined\<close>, the result of reading a property that is not there.  An object is the
  list of its key/value pairs after parsing (keys unique).  Numbers are only carried
  around and printed, never computed with.
\<close>

datatype json =
    JUndefined
  | JNull
  | JBool bool
  | JNum real
  | JStr string
  | JArr "json list"
  | JObj "(string \<times> json) list"

text \<open>A thrown \<open>Error\<close>: the constructor's name and the message.\<close>

datatype exn = Exn (ename: string) (emessage: string)

abbreviation Error :: "string \<Rightarrow> exn" where
  "Error m \<equiv> Exn ''Error'' m"

abbreviation TypeError :: "string \<Rightarrow> exn" where
  "TypeError m \<equiv> Exn ''TypeError'' m"

text \<open>\<open>String(err)\<close> for an \<open>Error\<close> object (\<open>Error.prototype.toString\<close>).\<close>

definition String_exn :: "exn \<Rightarrow> string" where
  "String_exn e =
     (if emessage e = [] then ename e
      else if ename e = [] then emessage e
      else ename e @ '': '' @ emessage e)"

text \<open>The outcome of one \<open>fetch\<close>: the promise rejects, or a response arrives with a
  status, a status text and a body that \<open>res.json()\<close> parses or rejects.\<close>

datatype http_result =
    NetworkFailure exn
  | HttpReply nat string "exn + json"

text \<open>\<open>res.ok\<close> of the Fetch standard.\<close>

definition ok :: "nat \<Rightarrow> bool" where
  "ok st \<longleftrightarrow> 200 \<le> st \<and> st \<le> 299"

text \<open>
  Everything the code takes from its runtime and from the network.  The data source
  answers the \<open>k\<close>-th request of a run for a URL; nothing is assumed about how the
  answers to different requests relate.
\<close>

record platform =
  off_respond :: "nat \<Rightarrow> string \<Rightarrow> http_result"
  num_str :: "real \<Rightarrow> string"
  encodeURIComponent :: "string \<Rightarrow> exn + string"
  form_encode :: "string \<Rightarrow> string"
  toLowerCase :: "string \<Rightarrow> string"
  replace_ws :: "string \<Rightarrow> string"
  randomUUID :: "nat \<Rightarrow> string"
  Date_now :: "nat \<Rightarrow> int"
  json_parse :: "string \<Rightarrow> exn + json"
  stringify :: "json \<Rightarrow> string"
  stringify_pretty :: "json \<Rightarrow> string"

subsection \<open>Reading JavaScript values\<close>

definition nullish :: "json \<Rightarrow> bool" where
  "nullish v \<longleftrightarrow> v = JUndefined \<or> v = JNull"

text \<open>The operator \<open>a ?? b\<close>.\<close>

definition nc :: "json \<Rightarrow> json \<Rightarrow> json" where
  "nc a b = (if nullish a then b else a)"

text \<open>\<open>!v\<close> is true for the falsy values.\<close>

fun falsy :: "json \<Rightarrow> bool" where
  "falsy JUndefined = True"
| "falsy JNull = True"
| "falsy (JBool b) = (\<not> b)"
| "falsy (JNum x) = (x = 0)"
| "falsy (JStr s) = (s = [])"
| "falsy (JArr _) = False"
| "falsy (JObj _) = False"

text \<open>\<open>v.k\<close> on a value that is not nullish: a parsed object has the property or the read
  gives \<open>undefined\<close>; the keys read by this program exist on no primitive and no array.\<close>

fun prop_of :: "json \<Rightarrow> string \<Rightarrow> json" where
  "prop_of (JObj kvs) k = (case map_of kvs k of Some v \<Rightarrow> v | None \<Rightarrow> JUndefined)"
| "prop_of _ k = JUndefined"

text \<open>\<open>v.k\<close> in general: reading a property of \<open>null\<close> or \<open>undefined\<close> throws.\<close>

definition read_prop :: "json \<Rightarrow> string \<Rightarrow> exn + json" where
  "read_prop v k =
     (if nullish v then Inl (TypeError (''Cannot read properties of null or undefined (reading '' @ k @ '')''))
      else Inr (prop_of v k))"

fun join :: "string \<Rightarrow> string list \<Rightarrow> string" where
  "join sep [] = []"
| "join sep [x] = x"
| "join sep (x # y # ys) = x @ sep @ join sep (y # ys)"

text \<open>Sequencing of steps that may throw.\<close>

fun bnd :: "exn + 'a \<Rightarrow> ('a \<Rightarrow> exn + 'b) \<Rightarrow> exn + 'b" where
  "bnd (Inl e) f = Inl e"
| "bnd (Inr v) f = f v"

text \<open>
  \<open>String(v)\<close>, which is also what a template literal, \<open>encodeURIComponent\<close> and a URL
  parameter apply to their argument.  An array is joined with commas, \<open>null\<close> and
  \<open>undefined\<close> elements giving the empty string.  A parsed object inherits
  \<open>Object.prototype.toString\<close> unless it has a key \<open>toString\<close> of its own; the value of such a
  key is never a function, so the conversion then throws.
\<close>

fun js_String :: "(real \<Rightarrow> string) \<Rightarrow> json \<Rightarrow> exn + string"
  and js_Strings :: "(real \<Rightarrow> string) \<Rightarrow> json list \<Rightarrow> exn + string list" where
  "js_String f JUndefined = Inr ''undefined''"
| "js_String f JNull = Inr ''null''"
| "js_String f (JBool b) = Inr (if b then ''true'' else ''false'')"
| "js_String f (JNum x) = Inr (f x)"
| "js_String f (JStr s) = Inr s"
| "js_String f (JArr vs) =
     (case js_Strings f vs of Inl e \<Rightarrow> Inl e | Inr ss \<Rightarrow> Inr (join '','' ss))"
| "js_String f (JObj kvs) =
     (if map_of kvs ''toString'' \<noteq> None
      then Inl (TypeError ''Cannot convert object to primitive value'')
      else Inr ''[object Object]'')"
| "js_Strings f [] = Inr []"
| "js_Strings f (v # vs) =
     (case (if v = JUndefined \<or> v = JNull then Inr [] else js_String f v) of
        Inl e \<Rightarrow> Inl e
      | Inr s \<Rightarrow> (case js_Strings f vs of Inl e \<Rightarrow> Inl e | Inr ss \<Rightarrow> Inr (s # ss)))"

fun string_of_nat :: "nat \<Rightarrow> string" where
  "string_of_nat n =
     (if n < 10 then [char_of (48 + n)]
      else string_of_nat (n div 10) @ [char_of (48 + n mod 10)])"

declare string_of_nat.simps [simp del]

section \<open>The data-source tools\<close>

text \<open>
  A tool runs against the log of the URLs requested from the data source so far and
  returns its outcome, a thrown error (\<open>Inl\<close>) or a value, with the extended log.
\<close>

type_synonym 'a io = "string list \<Rightarrow> (exn + 'a) \<times> string list"

definition OFF_BASE :: string where
  "OFF_BASE = ''https://world.openfoodfacts.org''"

definition offFetch :: "platform \<Rightarrow> string \<Rightarrow> json io" where
  "offFetch P url lg =
     (case off_respond P (length lg) url of
        NetworkFailure e \<Rightarrow> (Inl e, lg @ [url])
      | HttpReply st txt body \<Rightarrow>
          if \<not> ok st then
            (Inl (Error (''OpenFoodFacts '' @ string_of_nat st @ '': '' @ txt)), lg @ [url])
          else (body, lg @ [url]))"

record NutrientInfo =
  energy_kcal_100g :: json
  fat_100g :: json
  saturated_fat_100g :: json
  carbohydrates_100g :: json
  sugars_100g :: json
  fiber_100g :: json
  proteins_100g :: json
  salt_100g :: json
  sodium_100g :: json

record ProductSummary =
  code :: string
  product_name :: string
  brands :: string
  categories :: string
  nutriscore_grade :: string
  nova_group :: json
  ecoscore_grade :: string
  image_url :: string
  nutriments :: NutrientInfo
  ingredients_text :: string
  allergens :: string
  quantity :: string

text \<open>\<open>summarise\<close> reads properties of its argument, so a nullish argument throws; the
  fields are converted in the order of the object literal, and a conversion that throws
  ends it.\<close>

definition summarise :: "platform \<Rightarrow> json \<Rightarrow> exn + ProductSummary" where
  "summarise P p =
     (if nullish p then Inl (TypeError ''Cannot read properties of null or undefined (reading nutriments)'')
      else
        let S = js_String (num_str P);
            n = nc (prop_of p ''nutriments'') (JObj [])
        in
        bnd (S (nc (prop_of p ''code'') (JStr []))) (\<lambda>code'.
        bnd (S (nc (nc (prop_of p ''product_name'') (prop_of p ''product_name_en'')) (JStr ''Unknown''))) (\<lambda>product_name'.
        bnd (S (nc (prop_of p ''brands'') (JStr []))) (\<lambda>brands'.
        bnd (S (nc (prop_of p ''categories'') (JStr []))) (\<lambda>categories'.
        bnd (S (nc (prop_of p ''nutriscore_grade'') (JStr ''unknown''))) (\<lambda>nutriscore_grade'.
        bnd (S (nc (prop_of p ''ecoscore_grade'') (JStr ''unknown''))) (\<lambda>ecoscore_grade'.
        bnd (S (nc (nc (prop_of p ''image_front_url'') (prop_of p ''image_url'')) (JStr []))) (\<lambda>image_url'.
        bnd (S (nc (nc (prop_of p ''ingredients_text'') (prop_of p ''ingredients_text_en'')) (JStr []))) (\<lambda>ingredients_text'.
        bnd (S (nc (prop_of p ''allergens'') (JStr []))) (\<lambda>allergens'.
        bnd (S (nc (prop_of p ''quantity'') (JStr []))) (\<lambda>quantity'.
        Inr \<lparr>
          code = code',
          product_name = product_name',
          brands = brands',
          categories = categories',
          nutriscore_grade = nutriscore_grade',
          nova_group = nc (prop_of p ''nova_group'') (JStr ''unknown''),
          ecoscore_grade = ecoscore_grade',
          image_url = image_url',
          nutriments = \<lparr>
            energy_kcal_100g = prop_of n ''energy_kcal_100g'',
            fat_100g = prop_of n ''fat_100g'',
            saturated_fat_100g = nc (prop_of n ''saturated-fat_100g'') (prop_of n ''saturated_fat_100g''),
            carbohydrates_100g = prop_of n ''carbohydrates_100g'',
            sugars_100g = prop_of n ''sugars_100g'',
            fiber_100g = prop_of n ''fiber_100g'',
            proteins_100g = prop_of n ''proteins_100g'',
            salt_100g = prop_of n ''salt_100g'',
            sodium_100g = prop_of n ''sodium_100g'' \<rparr>,
          ingredients_text = ingredients_text',
          allergens = allergens',
          quantity = quantity' \<rparr>)))))))))))"

subsection \<open>Tool 1: lookup by barcode\<close>

definition getProductByBarcode :: "platform \<Rightarrow> json \<Rightarrow> ProductSummary io" where
  "getProductByBarcode P barcode lg =
     (case bnd (js_String (num_str P) barcode) (encodeURIComponent P) of
        Inl e \<Rightarrow> (Inl e, lg)
      | Inr enc \<Rightarrow>
          (case offFetch P (OFF_BASE @ ''/api/v2/product/'' @ enc @ ''.json'') lg of
             (Inl e, lg') \<Rightarrow> (Inl e, lg')
           | (Inr data, lg') \<Rightarrow>
               (case read_prop data ''product'' of
                  Inl e \<Rightarrow> (Inl e, lg')
                | Inr product \<Rightarrow>
                    if falsy product then
                      (bnd (js_String (num_str P) barcode)
                         (\<lambda>b. Inl (Error (''Product not found for barcode '' @ b))), lg')
                    else (summarise P product, lg'))))"

subsection \<open>Tools 2 and 3: search by keyword, browse a category\<close>

record ProductPage =
  count :: json
  products :: "ProductSummary list"

text \<open>\<open>xs.map(summarise)\<close>: the first element that throws ends the map.\<close>

fun map_summarise :: "platform \<Rightarrow> json list \<Rightarrow> exn + ProductSummary list" where
  "map_summarise P [] = Inr []"
| "map_summarise P (p # ps) =
     (case summarise P p of
        Inl e \<Rightarrow> Inl e
      | Inr s \<Rightarrow> (case map_summarise P ps of Inl e \<Rightarrow> Inl e | Inr ss \<Rightarrow> Inr (s # ss)))"

text \<open>The part both listing tools share: \<open>count ?? 0\<close> and \<open>(products ?? []).map(summarise)\<close>
  read from the fetched document.\<close>

definition page_of :: "platform \<Rightarrow> json \<Rightarrow> exn + ProductPage" where
  "page_of P data =
     (case read_prop data ''count'' of
        Inl e \<Rightarrow> Inl e
      | Inr c \<Rightarrow>
          (case nc (prop_of data ''products'') (JArr []) of
             JArr ps \<Rightarrow>
               (case map_summarise P ps of
                  Inl e \<Rightarrow> Inl e
                | Inr ss \<Rightarrow> Inr \<lparr> count = nc c (JNum 0), products = ss \<rparr>)
           | _ \<Rightarrow> Inl (TypeError ''(data.products ?? []).map is not a function'')))"

definition searchProducts :: "platform \<Rightarrow> json \<Rightarrow> json \<Rightarrow> json \<Rightarrow> ProductPage io" where
  "searchProducts P query page pageSize lg =
     (let S = js_String (num_str P)
      in case bnd (S query) (\<lambda>q. bnd (S page) (\<lambda>pg. bnd (S pageSize) (\<lambda>ps.
                Inr (OFF_BASE @ ''/cgi/search.pl''
                     @ ''?search_terms='' @ form_encode P q
                     @ ''&search_simple=1&action=process&json=true''
                     @ ''&page='' @ form_encode P pg
                     @ ''&page_size='' @ form_encode P ps)))) of
           Inl e \<Rightarrow> (Inl e, lg)
         | Inr url \<Rightarrow>
             (case offFetch P url lg of
                (Inl e, lg') \<Rightarrow> (Inl e, lg')
              | (Inr data, lg') \<Rightarrow> (page_of P data, lg')))"

definition getProductsByCategory :: "platform \<Rightarrow> json \<Rightarrow> json \<Rightarrow> json \<Rightarrow> ProductPage io" where
  "getProductsByCategory P category page pageSize lg =
     (case category of
        JStr c \<Rightarrow>
          (let S = js_String (num_str P)
           in case bnd (encodeURIComponent P (replace_ws P (toLowerCase P c))) (\<lambda>enc.
                   bnd (S page) (\<lambda>pg. bnd (S pageSize) (\<lambda>ps.
                     Inr (OFF_BASE @ ''/category/'' @ enc @ ''.json?page='' @ pg
                          @ ''&page_size='' @ ps)))) of
                Inl e \<Rightarrow> (Inl e, lg)
              | Inr url \<Rightarrow>
                  (case offFetch P url lg of
                     (Inl e, lg') \<Rightarrow> (Inl e, lg')
                   | (Inr data, lg') \<Rightarrow> (page_of P data, lg')))
      | _ \<Rightarrow> (Inl (TypeError ''category.toLowerCase is not a function''), lg))"

subsection \<open>Tool 4: compare several barcodes\<close>

text \<open>What \<open>Promise.allSettled\<close> reports for one promise.\<close>

datatype 'a settled = Fulfilled 'a | Rejected exn

definition settle :: "exn + 'a \<Rightarrow> 'a settled" where
  "settle r = (case r of Inl e \<Rightarrow> Rejected e | Inr v \<Rightarrow> Fulfilled v)"

text \<open>\<open>Promise.allSettled(barcodes.map(getProductByBarcode))\<close>: every lookup is started,
  in the order of the array, and its outcome is recorded whatever it is.\<close>

fun allSettled_lookups ::
  "platform \<Rightarrow> json list \<Rightarrow> string list \<Rightarrow> ProductSummary settled list \<times> string list" where
  "allSettled_lookups P [] lg = ([], lg)"
| "allSettled_lookups P (b # bs) lg =
     (case getProductByBarcode P b lg of
        (r, lg') \<Rightarrow>
          (case allSettled_lookups P bs lg' of
             (rs, lg'') \<Rightarrow> (settle r # rs, lg'')))"

text \<open>The \<open>filter\<close> on \<open>status === "fulfilled"\<close> followed by the \<open>map\<close> to \<open>r.value\<close>.\<close>

definition fulfilled_values :: "'a settled list \<Rightarrow> 'a list" where
  "fulfilled_values rs = [v. Fulfilled v \<leftarrow> rs]"

definition compareProducts :: "platform \<Rightarrow> json \<Rightarrow> ProductSummary list io" where
  "compareProducts P barcodes lg =
     (case barcodes of
        JArr bs \<Rightarrow>
          (case allSettled_lookups P bs lg of
             (rs, lg') \<Rightarrow> (Inr (fulfilled_values rs), lg'))
      | _ \<Rightarrow> (Inl (TypeError ''barcodes.map is not a function''), lg))"

subsection \<open>Tool 5: allergens and traces\<close>

record AllergenInfo =
  product_name :: string
  allergens :: string
  allergens_tags :: json
  traces :: string
  traces_tags :: json

definition getAllergenInfo :: "platform \<Rightarrow> json \<Rightarrow> AllergenInfo io" where
  "getAllergenInfo P barcode lg =
     (case bnd (js_String (num_str P) barcode) (encodeURIComponent P) of
        Inl e \<Rightarrow> (Inl e, lg)
      | Inr enc \<Rightarrow>
          (case offFetch P (OFF_BASE @ ''/api/v2/product/'' @ enc
                 @ ''.json?fields=product_name,allergens,allergens_tags,traces,traces_tags'') lg of
             (Inl e, lg') \<Rightarrow> (Inl e, lg')
           | (Inr data, lg') \<Rightarrow>
               (case read_prop data ''product'' of
                  Inl e \<Rightarrow> (Inl e, lg')
                | Inr product \<Rightarrow>
                    (let S = js_String (num_str P);
                         p = nc product (JObj [])
                     in (bnd (S (nc (prop_of p ''product_name'') (JStr ''Unknown''))) (\<lambda>product_name'.
                         bnd (S (nc (prop_of p ''allergens'') (JStr []))) (\<lambda>allergens'.
                         bnd (S (nc (prop_of p ''traces'') (JStr []))) (\<lambda>traces'.
                         Inr \<lparr>
                           product_name = product_name',
                           allergens = allergens',
                           allergens_tags = nc (prop_of p ''allergens_tags'') (JArr []),
                           traces = traces',
                           traces_tags = nc (prop_of p ''traces_tags'') (JArr []) \<rparr>))), lg')))))"

subsection \<open>The dispatcher\<close>

text \<open>The value a tool returns, \<open>unknown\<close> to the dispatcher's callers.\<close>

datatype tool_result =
    RSummary ProductSummary
  | RPage ProductPage
  | RSummaries "ProductSummary list"
  | RAllergen AllergenInfo

definition returning :: "('a \<Rightarrow> 'b) \<Rightarrow> (exn + 'a) \<times> string list \<Rightarrow> (exn + 'b) \<times> string list" where
  "returning f r = (case r of (Inl e, lg) \<Rightarrow> (Inl e, lg) | (Inr v, lg) \<Rightarrow> (Inr (f v), lg))"

definition dispatchTool :: "platform \<Rightarrow> string \<Rightarrow> json \<Rightarrow> tool_result io" where
  "dispatchTool P name args lg =
     (if name = ''get_product_by_barcode'' then
        (case read_prop args ''barcode'' of
           Inl e \<Rightarrow> (Inl e, lg)
         | Inr b \<Rightarrow> returning RSummary (getProductByBarcode P b lg))
      else if name = ''search_products'' then
        (case read_prop args ''query'' of
           Inl e \<Rightarrow> (Inl e, lg)
         | Inr q \<Rightarrow>
             returning RPage
               (searchProducts P q (nc (prop_of args ''page'') (JNum 1))
                  (nc (prop_of args ''page_size'') (JNum 5)) lg))
      else if name = ''get_products_by_category'' then
        (case read_prop args ''category'' of
           Inl e \<Rightarrow> (Inl e, lg)
         | Inr c \<Rightarrow>
             returning RPage
               (getProductsByCategory P c (nc (prop_of args ''page'') (JNum 1))
                  (nc (prop_of args ''page_size'') (JNum 5)) lg))
      else if name = ''compare_products'' then
        (case read_prop args ''barcodes'' of
           Inl e \<Rightarrow> (Inl e, lg)
         | Inr bs \<Rightarrow> returning RSummaries (compareProducts P bs lg))
      else if name = ''get_allergen_info'' then
        (case read_prop args ''barcode'' of
           Inl e \<Rightarrow> (Inl e, lg)
         | Inr b \<Rightarrow> returning RAllergen (getAllergenInfo P b lg))
      else (Inl (Error (''Unknown tool: '' @ name)), lg))"

text \<open>The tools' results as the plain objects that \<open>JSON.stringify\<close> is given.\<close>

definition json_of_nutriments :: "NutrientInfo \<Rightarrow> json" where
  "json_of_nutriments n = JObj
     [(''energy_kcal_100g'', energy_kcal_100g n),
      (''fat_100g'', fat_100g n),
      (''saturated_fat_100g'', saturated_fat_100g n),
      (''carbohydrates_100g'', carbohydrates_100g n),
      (''sugars_100g'', sugars_100g n),
      (''fiber_100g'', fiber_100g n),
      (''proteins_100g'', proteins_100g n),
      (''salt_100g'', salt_100g n),
      (''sodium_100g'', sodium_100g n)]"

definition json_of_summary :: "ProductSummary \<Rightarrow> json" where
  "json_of_summary s = JObj
     [(''code'', JStr (code s)),
      (''product_name'', JStr (ProductSummary.product_name s)),
      (''brands'', JStr (brands s)),
      (''categories'', JStr (categories s)),
      (''nutriscore_grade'', JStr (nutriscore_grade s)),
      (''nova_group'', nova_group s),
      (''ecoscore_grade'', JStr (ecoscore_grade s)),
      (''image_url'', JStr (image_url s)),
      (''nutriments'', json_of_nutriments (nutriments s)),
      (''ingredients_text'', JStr (ingredients_text s)),
      (''allergens'', JStr (ProductSummary.allergens s)),
      (''quantity'', JStr (quantity s))]"

fun json_of_result :: "tool_result \<Rightarrow> json" where
  "json_of_result (RSummary s) = json_of_summary s"
| "json_of_result (RPage pg) =
     JObj [(''count'', count pg), (''products'', JArr (map json_of_summary (products pg)))]"
| "json_of_result (RSummaries ss) = JArr (map json_of_summary ss)"
| "json_of_result (RAllergen a) = JObj
     [(''product_name'', JStr (product_name a)),
      (''allergens'', JStr (allergens a)),
      (''allergens_tags'', allergens_tags a),
      (''traces'', JStr (traces a)),
      (''traces_tags'', traces_tags a)]"

section \<open>The RPC gateway\<close>

subsection \<open>Protocol constants and the tool registry\<close>

definition MCP_PROTOCOL_VERSION :: string where
  "MCP_PROTOCOL_VERSION = ''2025-03-26''"

record McpTool =
  tool_name :: string
  tool_description :: string
  inputSchema :: json

definition string_param :: "string \<Rightarrow> json" where
  "string_param d = JObj [(''type'', JStr ''string''), (''description'', JStr d)]"

definition number_param :: "string \<Rightarrow> json" where
  "number_param d = JObj [(''type'', JStr ''number''), (''description'', JStr d)]"

definition object_schema :: "(string \<times> json) list \<Rightarrow> string list \<Rightarrow> json" where
  "object_schema props req = JObj
     [(''type'', JStr ''object''), (''properties'', JObj props), (''required'', JArr (map JStr req))]"

definition MCP_TOOLS :: "McpTool list" where
  "MCP_TOOLS =
   [\<lparr> tool_name = ''get_product_by_barcode'',
      tool_description = ''Look up a food product by its barcode (EAN/UPC). Returns full nutritional facts, Nutri-Score, ingredients, allergens.'',
      inputSchema = object_schema
        [(''barcode'', string_param ''The product barcode (EAN-13 or UPC-A), e.g. '3017620422003' for Nutella'')]
        [''barcode''] \<rparr>,
    \<lparr> tool_name = ''search_products'',
      tool_description = ''Search the OpenFoodFacts database by product name or keyword. Returns matching products with nutritional info.'',
      inputSchema = object_schema
        [(''query'', string_param ''Product name or keyword to search for''),
         (''page'', number_param ''Page number (default 1)''),
         (''page_size'', number_param ''Results per page, max 50 (default 5)'')]
        [''query''] \<rparr>,
    \<lparr> tool_name = ''get_products_by_category'',
      tool_description = ''Browse products in a specific food category, e.g. 'breakfast-cereals', 'yogurts', 'sodas'.'',
      inputSchema = object_schema
        [(''category'', string_param ''Food category name''),
         (''page'', number_param ''Page number (default 1)''),
         (''page_size'', number_param ''Results per page (default 5)'')]
        [''category''] \<rparr>,
    \<lparr> tool_name = ''compare_products'',
      tool_description = ''Compare nutritional facts and Nutri-Score across multiple products by their barcodes.'',
      inputSchema = object_schema
        [(''barcodes'', JObj [(''type'', JStr ''array''),
                              (''items'', JObj [(''type'', JStr ''string'')]),
                              (''description'', JStr ''Array of barcodes to compare'')])]
        [''barcodes''] \<rparr>,
    \<lparr> tool_name = ''get_allergen_info'',
      tool_description = ''Get allergen and trace information for a product by barcode. Useful for dietary restriction checks.'',
      inputSchema = object_schema
        [(''barcode'', string_param ''Product barcode'')]
        [''barcode''] \<rparr>]"

subsection \<open>JSON-RPC responses\<close>

record ContentItem =
  content_type :: string
  content_text :: string

datatype rpc_payload =
    InitializeResult string string string bool
  | EmptyResult
  | ToolsListResult "McpTool list"
  | ToolCallResult "ContentItem list" bool

record rpc_error =
  err_code :: int
  err_message :: string
  err_data :: json

record JsonRpcResponse =
  jsonrpc :: string
  resp_id :: json
  result :: "rpc_payload option"
  error :: "rpc_error option"

definition rpcOk :: "json \<Rightarrow> rpc_payload \<Rightarrow> JsonRpcResponse" where
  "rpcOk i r = \<lparr> jsonrpc = ''2.0'', resp_id = i, result = Some r, error = None \<rparr>"

definition rpcError :: "json \<Rightarrow> int \<Rightarrow> string \<Rightarrow> JsonRpcResponse" where
  "rpcError i c m =
     \<lparr> jsonrpc = ''2.0'', resp_id = i, result = None,
       error = Some \<lparr> err_code = c, err_message = m, err_data = JUndefined \<rparr> \<rparr>"

subsection \<open>\<open>tools/call\<close>\<close>

text \<open>\<open>MCP_TOOLS.find((t) => t.name === toolName)\<close>: strict equality, so only a string
  can name a tool, and the name of the tool found is \<open>toolName\<close>.\<close>

definition find_tool :: "json \<Rightarrow> McpTool option" where
  "find_tool toolName = find (\<lambda>t. JStr (tool_name t) = toolName) MCP_TOOLS"

text \<open>The two error returns come before the \<open>try\<close>: what their template literals throw
  leaves \<open>handleToolCall\<close> as a rejection.\<close>

definition handleToolCall :: "platform \<Rightarrow> json \<Rightarrow> json \<Rightarrow> JsonRpcResponse io" where
  "handleToolCall P i params lg =
     (if falsy params \<or> falsy (prop_of params ''name'') then
        (Inr (rpcError i (- 32602) ''Missing required parameter: name''), lg)
      else
        let toolName = prop_of params ''name'';
            args = nc (prop_of params ''arguments'') (JObj [])
        in case find_tool toolName of
             None \<Rightarrow>
               (bnd (js_String (num_str P) toolName)
                  (\<lambda>s. Inr (rpcError i (- 32602) (''Unknown tool: '' @ s))), lg)
           | Some tool \<Rightarrow>
               (case dispatchTool P (tool_name tool) args lg of
                  (Inr r, lg') \<Rightarrow>
                    (Inr (rpcOk i (ToolCallResult
                       [\<lparr> content_type = ''text'',
                          content_text = stringify_pretty P (json_of_result r) \<rparr>] False)), lg')
                | (Inl err, lg') \<Rightarrow>
                    (Inr (rpcOk i (ToolCallResult
                       [\<lparr> content_type = ''text'',
                          content_text = ''Error: '' @ emessage err \<rparr>] True)), lg')))"

subsection \<open>The method dispatcher\<close>

definition handleRpcMethod :: "platform \<Rightarrow> json \<Rightarrow> JsonRpcResponse option io" where
  "handleRpcMethod P req lg =
     (case read_prop req ''id'' of
        Inl e \<Rightarrow> (Inl e, lg)
      | Inr rid \<Rightarrow>
          let i = nc rid JNull;
              m = prop_of req ''method''
          in if m = JStr ''notifications/initialized'' then (Inr None, lg)
             else if m = JStr ''notifications/cancelled'' then (Inr None, lg)
             else if m = JStr ''initialize'' then
               (Inr (Some (rpcOk i
                  (InitializeResult MCP_PROTOCOL_VERSION ''NutriAgent-MCP'' ''1.2.0'' False))), lg)
             else if m = JStr ''ping'' then (Inr (Some (rpcOk i EmptyResult)), lg)
             else if m = JStr ''tools/list'' then
               (Inr (Some (rpcOk i (ToolsListResult MCP_TOOLS))), lg)
             else if m = JStr ''tools/call'' then
               returning Some (handleToolCall P i (prop_of req ''params'') lg)
             else
               (bnd (js_String (num_str P) m)
                  (\<lambda>s. Inr (Some (rpcError i (- 32601) (''Method not found: '' @ s)))), lg))"

section \<open>The gateway's request handler\<close>

subsection \<open>Sessions\<close>

text \<open>
  The process-wide state of the gateway: the session store (identifier to creation
  time), the number of identifiers drawn from \<open>crypto.randomUUID\<close> so far, and the log
  of data-source requests.
\<close>

record gw_state =
  sessions :: "string \<rightharpoonup> int"
  minted :: nat
  off_log :: "string list"

text \<open>A header value is truthy when it is present and not the empty string.\<close>

definition truthy_str :: "string option \<Rightarrow> bool" where
  "truthy_str h \<longleftrightarrow> (case h of None \<Rightarrow> False | Some s \<Rightarrow> s \<noteq> [])"

definition getOrCreateSession :: "platform \<Rightarrow> string option \<Rightarrow> gw_state \<Rightarrow> string \<times> gw_state" where
  "getOrCreateSession P sessionId st =
     (if truthy_str sessionId \<and> the sessionId \<in> dom (sessions st) then (the sessionId, st)
      else
        let new_id = randomUUID P (minted st)
        in (new_id, st \<lparr> sessions := (sessions st)(new_id \<mapsto> Date_now P (minted st)),
                         minted := Suc (minted st) \<rparr>))"

subsection \<open>Requests and responses\<close>

record Env =
  MCP_API_KEY :: "string option"

record Request =
  req_method :: string
  authorization :: "string option"
  mcp_session_id :: "string option"
  content_type_header :: "string option"
  req_json :: "exn + json"

datatype resp_body =
    NoBody
  | TextBody string
  | StreamBody string
  | JsonBody JsonRpcResponse
  | JsonBatch "JsonRpcResponse list"

record Response =
  status :: nat
  headers :: "(string \<times> string) list"
  body :: resp_body

text \<open>The session token of a response: its \<open>Mcp-Session-Id\<close> header, if it has one.\<close>

definition session_token :: "Response \<Rightarrow> string option" where
  "session_token r = map_of (headers r) ''Mcp-Session-Id''"

definition startsWith :: "string \<Rightarrow> string \<Rightarrow> bool" where
  "startsWith s p \<longleftrightarrow> take (length p) s = p"

fun str_includes :: "string \<Rightarrow> string \<Rightarrow> bool" where
  "str_includes [] sub = (sub = [])"
| "str_includes (c # cs) sub = (startsWith (c # cs) sub \<or> str_includes cs sub)"

subsection \<open>Authorization\<close>

definition checkMcpAuth :: "Request \<Rightarrow> Env \<Rightarrow> Response option" where
  "checkMcpAuth request env =
     (if \<not> truthy_str (MCP_API_KEY env) then None
      else if \<not> truthy_str (authorization request)
              \<or> \<not> startsWith (the (authorization request)) ''Bearer '' then
        Some \<lparr> status = 401, headers = [(''Content-Type'', ''application/json'')],
               body = JsonBody (rpcError JNull (- 32001) ''Unauthorized: Bearer token required'') \<rparr>
      else if drop 7 (the (authorization request)) \<noteq> the (MCP_API_KEY env) then
        Some \<lparr> status = 401, headers = [(''Content-Type'', ''application/json'')],
               body = JsonBody (rpcError JNull (- 32001) ''Unauthorized: invalid token'') \<rparr>
      else None)"

subsection \<open>Batches\<close>

text \<open>\<open>body.map((req) => handleRpcMethod(req))\<close>: every item is started, in the order of
  the array.\<close>

fun map_handleRpcMethod ::
  "platform \<Rightarrow> json list \<Rightarrow> string list \<Rightarrow> (exn + JsonRpcResponse option) list \<times> string list" where
  "map_handleRpcMethod P [] lg = ([], lg)"
| "map_handleRpcMethod P (req # reqs) lg =
     (case handleRpcMethod P req lg of
        (r, lg') \<Rightarrow>
          (case map_handleRpcMethod P reqs lg' of
             (rs, lg'') \<Rightarrow> (r # rs, lg'')))"

text \<open>\<open>Promise.all\<close>: the values in order, or a rejection.\<close>

fun Promise_all :: "(exn + 'a) list \<Rightarrow> exn + 'a list" where
  "Promise_all [] = Inr []"
| "Promise_all (Inl e # rs) = Inl e"
| "Promise_all (Inr v # rs) = (case Promise_all rs of Inl e \<Rightarrow> Inl e | Inr vs \<Rightarrow> Inr (v # vs))"

text \<open>\<open>results.filter((r) => r !== null)\<close>.\<close>

definition non_null :: "'a option list \<Rightarrow> 'a list" where
  "non_null rs = [r. Some r \<leftarrow> rs]"

subsection \<open>\<open>handleMcpRequest\<close>\<close>

definition handleMcpRequest ::
  "platform \<Rightarrow> Request \<Rightarrow> Env \<Rightarrow> gw_state \<Rightarrow> (exn + Response) \<times> gw_state" where
  "handleMcpRequest P request env st =
     (case checkMcpAuth request env of
        Some authErr \<Rightarrow> (Inr authErr, st)
      | None \<Rightarrow>
          if req_method request = ''GET'' then
            (case getOrCreateSession P (mcp_session_id request) st of
               (sessionId, st') \<Rightarrow>
                 (Inr \<lparr> status = 200,
                        headers = [(''Content-Type'', ''text/event-stream''),
                                   (''Cache-Control'', ''no-cache''),
                                   (''Connection'', ''keep-alive''),
                                   (''Mcp-Session-Id'', sessionId)],
                        body = StreamBody ('': MCP SSE keepalive'' @ [CHR 0x0A, CHR 0x0A]) \<rparr>, st'))
          else if req_method request = ''DELETE'' then
            (Inr \<lparr> status = 204, headers = [], body = NoBody \<rparr>,
             if truthy_str (mcp_session_id request)
             then st \<lparr> sessions := (sessions st)(the (mcp_session_id request) := None) \<rparr>
             else st)
          else if req_method request \<noteq> ''POST'' then
            (Inr \<lparr> status = 405, headers = [], body = TextBody ''Method Not Allowed'' \<rparr>, st)
          else if \<not> str_includes (case content_type_header request of None \<Rightarrow> [] | Some c \<Rightarrow> c)
                               ''application/json'' then
            (Inr \<lparr> status = 415, headers = [],
                   body = JsonBody (rpcError JNull (- 32700) ''Content-Type must be application/json'') \<rparr>, st)
          else
            (case req_json request of
               Inl e \<Rightarrow>
                 (Inr \<lparr> status = 400, headers = [],
                        body = JsonBody (rpcError JNull (- 32700) ''Parse error'') \<rparr>, st)
             | Inr (JArr items) \<Rightarrow>
                 (case map_handleRpcMethod P items (off_log st) of
                    (outcomes, lg') \<Rightarrow>
                      (case Promise_all outcomes of
                         Inl e \<Rightarrow> (Inl e, st \<lparr> off_log := lg' \<rparr>)
                       | Inr results \<Rightarrow>
                           (case getOrCreateSession P (mcp_session_id request) (st \<lparr> off_log := lg' \<rparr>) of
                              (sessionId, st') \<Rightarrow>
                                if length (non_null results) = 0 then
                                  (Inr \<lparr> status = 202, headers = [(''Mcp-Session-Id'', sessionId)],
                                         body = NoBody \<rparr>, st')
                                else
                                  (Inr \<lparr> status = 200,
                                         headers = [(''Content-Type'', ''application/json''),
                                                    (''Mcp-Session-Id'', sessionId)],
                                         body = JsonBatch (non_null results) \<rparr>, st'))))
             | Inr rpcReq \<Rightarrow>
                 (case getOrCreateSession P (mcp_session_id request) st of
                    (sessionId, st') \<Rightarrow>
                      (case handleRpcMethod P rpcReq (off_log st') of
                         (Inl e, lg') \<Rightarrow> (Inl e, st' \<lparr> off_log := lg' \<rparr>)
                       | (Inr None, lg') \<Rightarrow>
                           (Inr \<lparr> status = 202, headers = [(''Mcp-Session-Id'', sessionId)],
                                  body = NoBody \<rparr>, st' \<lparr> off_log := lg' \<rparr>)
                       | (Inr (Some res), lg') \<Rightarrow>
                           (Inr \<lparr> status = 200,
                                  headers = [(''Content-Type'', ''application/json''),
                                             (''Mcp-Session-Id'', sessionId)],
                                  body = JsonBody res \<rparr>, st' \<lparr> off_log := lg' \<rparr>)))))"

section \<open>The agent\<close>

subsection \<open>Messages\<close>

datatype role = System | User | Assistant | Tool

record ToolCall =
  tc_id :: string
  fn_name :: string
  fn_arguments :: string

text \<open>
  A message object as it exists at run time: the fields of the interface \<open>ChatMessage\<close>
  and \<open>reasoning_content\<close>, the property a message of the backend may carry
  (\<open>ChatMessage & { reasoning_content?: string }\<close>).  The objects the agent builds itself
  do not have it.
\<close>

record ChatMessage =
  role :: role
  content :: "string option"
  tool_call_id :: "string option"
  tool_calls :: "ToolCall list option"
  reasoning_content :: "string option"

text \<open>The outcome of one request to the text-generation backend: the \<open>fetch\<close> rejects,
  or a response arrives with a status, the text of its body, and what \<open>res.json()\<close>
  makes of it, the list \<open>choices\<close> of messages.\<close>

datatype llm_result =
    LlmNetworkFailure exn
  | LlmReply nat string "exn + ChatMessage list"

text \<open>
  The agent's surroundings: the backend's response to the \<open>k\<close>-th request, and what
  \<open>McpClient.callTool\<close> gives for the \<open>k\<close>-th remote tool call (its text, or the error it
  throws).
\<close>

record backend =
  llm_respond :: "nat \<Rightarrow> llm_result"
  mcp_callTool :: "nat \<Rightarrow> string \<Rightarrow> json \<Rightarrow> exn + string"

text \<open>What a run has consumed: backend requests, remote tool calls, data-source requests.\<close>

record agent_io =
  llm_calls :: nat
  mcp_calls :: nat
  src_log :: "string list"

text \<open>The envelopes sent on the interactive channel.\<close>

datatype ws_event =
    Pipeline string string string
  | Status string
  | ToolCallEvent string string
  | ResponseEvent string
  | ErrorEvent string

subsection \<open>The backend adapter\<close>

text \<open>\<open>if (!msg.content && msg.reasoning_content) msg.content = msg.reasoning_content\<close>:
  the backend's object with its content set, every other property kept.\<close>

definition normalise :: "ChatMessage \<Rightarrow> ChatMessage" where
  "normalise msg =
     (if \<not> truthy_str (content msg) \<and> truthy_str (reasoning_content msg)
      then msg \<lparr> content := reasoning_content msg \<rparr>
      else msg)"

text \<open>
  \<open>callLLM\<close> sends the conversation, behind the system prompt and with the tool catalogue
  (\<open>getLLMTools\<close>, which catches its own failures), and decodes the reply.  What it returns
  depends on the reply alone.
\<close>

definition callLLM :: "backend \<Rightarrow> ChatMessage list \<Rightarrow> agent_io \<Rightarrow> (exn + ChatMessage) \<times> agent_io" where
  "callLLM B messages io =
     (let io' = io \<lparr> llm_calls := Suc (llm_calls io) \<rparr>
      in case llm_respond B (llm_calls io) of
           LlmNetworkFailure e \<Rightarrow> (Inl e, io')
         | LlmReply st txt data \<Rightarrow>
             if \<not> ok st then (Inl (Error (''GLM API '' @ string_of_nat st @ '': '' @ txt)), io')
             else
               (case data of
                  Inl e \<Rightarrow> (Inl e, io')
                | Inr [] \<Rightarrow>
                    (Inl (TypeError ''Cannot read properties of undefined (reading message)''), io')
                | Inr (choice # _) \<Rightarrow> (Inr (normalise choice), io')))"

subsection \<open>Executing one tool call\<close>

definition executeTool ::
  "platform \<Rightarrow> backend \<Rightarrow> string \<Rightarrow> json \<Rightarrow> agent_io \<Rightarrow> (exn + string) \<times> agent_io" where
  "executeTool P B name args io =
     (let io' = io \<lparr> mcp_calls := Suc (mcp_calls io) \<rparr>
      in case mcp_callTool B (mcp_calls io) name args of
           Inr text \<Rightarrow> (Inr text, io')
         | Inl _ \<Rightarrow>
             (case dispatchTool P name args (src_log io') of
                (Inl e, lg') \<Rightarrow> (Inl e, io' \<lparr> src_log := lg' \<rparr>)
              | (Inr r, lg') \<Rightarrow>
                  (Inr (stringify_pretty P (json_of_result r)), io' \<lparr> src_log := lg' \<rparr>)))"

text \<open>The \<open>try\<close>/\<open>catch\<close> around \<open>JSON.parse\<close> and \<open>executeTool\<close>: the text that becomes the
  content of the tool-result turn.\<close>

definition tool_result_text :: "platform \<Rightarrow> backend \<Rightarrow> ToolCall \<Rightarrow> agent_io \<Rightarrow> string \<times> agent_io" where
  "tool_result_text P B tc io =
     (case json_parse P (fn_arguments tc) of
        Inl err \<Rightarrow> (stringify P (JObj [(''error'', JStr (String_exn err))]), io)
      | Inr args \<Rightarrow>
          (case executeTool P B (fn_name tc) args io of
             (Inl err, io') \<Rightarrow> (stringify P (JObj [(''error'', JStr (String_exn err))]), io')
           | (Inr text, io') \<Rightarrow> (text, io')))"

definition tool_turn :: "ToolCall \<Rightarrow> string \<Rightarrow> ChatMessage" where
  "tool_turn tc res =
     \<lparr> role = Tool, content = Some res, tool_call_id = Some (tc_id tc), tool_calls = None, reasoning_content = None \<rparr>"

definition has_tool_calls :: "ChatMessage \<Rightarrow> bool" where
  "has_tool_calls m \<longleftrightarrow> (case tool_calls m of None \<Rightarrow> False | Some tcs \<Rightarrow> length tcs > 0)"

text \<open>\<open>assistantMessage.content ?? ""\<close>.\<close>

definition content_or_empty :: "ChatMessage \<Rightarrow> string" where
  "content_or_empty m = (case content m of None \<Rightarrow> [] | Some c \<Rightarrow> c)"

subsection \<open>The chat loop of the interactive channel\<close>

text \<open>The \<open>for\<close> loop over the tool calls of one assistant turn.\<close>

fun run_tool_calls ::
  "platform \<Rightarrow> backend \<Rightarrow> ToolCall list \<Rightarrow> ChatMessage list \<Rightarrow> ws_event list \<Rightarrow> agent_io
   \<Rightarrow> ChatMessage list \<times> ws_event list \<times> agent_io" where
  "run_tool_calls P B [] history sent io = (history, sent, io)"
| "run_tool_calls P B (tc # tcs) history sent io =
     (case tool_result_text P B tc io of
        (res, io') \<Rightarrow>
          run_tool_calls P B tcs
            (history @ [tool_turn tc res])
            (sent @ [Pipeline ''tools'' ''active'' (''Executing '' @ fn_name tc),
                     ToolCallEvent (fn_name tc) (fn_arguments tc),
                     Pipeline ''tools'' ''complete'' (fn_name tc @ '' returned data'')])
            io')"

text \<open>
  The \<open>while\<close> loop: \<open>maxIterations\<close> is the number of iterations still allowed, tested
  and decremented by \<open>maxIterations-- > 0\<close> after the test for tool calls.  The loop
  ends with the assistant message that stopped it, or with the error \<open>callLLM\<close> threw.
\<close>

fun tool_loop ::
  "platform \<Rightarrow> backend \<Rightarrow> nat \<Rightarrow> ChatMessage \<Rightarrow> ChatMessage list \<Rightarrow> ws_event list \<Rightarrow> agent_io
   \<Rightarrow> (exn + ChatMessage) \<times> ChatMessage list \<times> ws_event list \<times> agent_io" where
  "tool_loop P B maxIterations assistantMessage history sent io =
     (if has_tool_calls assistantMessage \<and> maxIterations > 0 then
        (case run_tool_calls P B (the (tool_calls assistantMessage))
                (history @ [assistantMessage])
                (sent @ [Pipeline ''mcp'' ''active'' ''Routing tool calls via MCP Server''])
                io of
           (history', sent', io') \<Rightarrow>
             (case callLLM B history' io' of
                (Inl e, io'') \<Rightarrow>
                  (Inl e, history',
                   sent' @ [Pipeline ''llm'' ''active'' ''Analyzing tool results'', Status ''thinking''],
                   io'')
              | (Inr next, io'') \<Rightarrow>
                  tool_loop P B (maxIterations - 1) next history'
                    (sent' @ [Pipeline ''llm'' ''active'' ''Analyzing tool results'', Status ''thinking''])
                    io''))
      else (Inr assistantMessage, history, sent, io))"

declare tool_loop.simps [simp del]

text \<open>\<open>handleChat\<close>: the new conversation state, the envelopes sent, and what was consumed.\<close>

definition handleChat ::
  "platform \<Rightarrow> backend \<Rightarrow> string \<Rightarrow> ChatMessage list \<Rightarrow> agent_io
   \<Rightarrow> ChatMessage list \<times> ws_event list \<times> agent_io" where
  "handleChat P B userMessage messages io =
     (let history = messages @ [\<lparr> role = User, content = Some userMessage,
                                  tool_call_id = None, tool_calls = None, reasoning_content = None \<rparr>];
          sent = [Pipeline ''agent'' ''active'' ''Processing your query'',
                  Status ''thinking'',
                  Pipeline ''llm'' ''active'' ''Reasoning with GLM-4.7-Flash'']
      in case callLLM B history io of
           (Inl err, io') \<Rightarrow>
             (messages,
              sent @ [Pipeline ''done'' ''complete'' ''Error encountered'',
                      ErrorEvent (''Sorry, something went wrong: '' @ emessage err)],
              io')
         | (Inr first, io') \<Rightarrow>
             (case tool_loop P B 8 first history sent io' of
                (Inl err, history', sent', io'') \<Rightarrow>
                  (messages,
                   sent' @ [Pipeline ''done'' ''complete'' ''Error encountered'',
                            ErrorEvent (''Sorry, something went wrong: '' @ emessage err)],
                   io'')
              | (Inr final, history', sent', io'') \<Rightarrow>
                  (history' @ [\<lparr> role = Assistant, content = Some (content_or_empty final),
                                 tool_call_id = None, tool_calls = None, reasoning_content = None \<rparr>],
                   sent' @ [Pipeline ''done'' ''complete'' ''Response ready'',
                            ResponseEvent (content_or_empty final)],
                   io'')))"

subsection \<open>The chat loop of the HTTP fallback\<close>

fun run_tool_calls_http ::
  "platform \<Rightarrow> backend \<Rightarrow> ToolCall list \<Rightarrow> ChatMessage list \<Rightarrow> agent_io
   \<Rightarrow> ChatMessage list \<times> agent_io" where
  "run_tool_calls_http P B [] history io = (history, io)"
| "run_tool_calls_http P B (tc # tcs) history io =
     (case tool_result_text P B tc io of
        (res, io') \<Rightarrow> run_tool_calls_http P B tcs (history @ [tool_turn tc res]) io')"

fun http_loop ::
  "platform \<Rightarrow> backend \<Rightarrow> nat \<Rightarrow> ChatMessage \<Rightarrow> ChatMessage list \<Rightarrow> agent_io
   \<Rightarrow> (exn + ChatMessage) \<times> ChatMessage list \<times> agent_io" where
  "http_loop P B iterations assistantMsg history io =
     (if has_tool_calls assistantMsg \<and> iterations > 0 then
        (case run_tool_calls_http P B (the (tool_calls assistantMsg)) (history @ [assistantMsg]) io of
           (history', io') \<Rightarrow>
             (case callLLM B history' io' of
                (Inl e, io'') \<Rightarrow> (Inl e, history', io'')
              | (Inr next, io'') \<Rightarrow> http_loop P B (iterations - 1) next history' io''))
      else (Inr assistantMsg, history, io))"

declare http_loop.simps [simp del]

record AgentRequest =
  pathname :: string
  http_method :: string
  chat_message :: "exn + string"

datatype agent_response =
    ChatResponse "string option"
  | PlainResponse string

text \<open>\<open>onRequest\<close>: the response or the error thrown, the conversation state, and what was
  consumed.  The state is replaced only where \<open>setState\<close> is reached.\<close>

definition onRequest ::
  "platform \<Rightarrow> backend \<Rightarrow> AgentRequest \<Rightarrow> ChatMessage list \<Rightarrow> agent_io
   \<Rightarrow> (exn + agent_response) \<times> ChatMessage list \<times> agent_io" where
  "onRequest P B request messages io =
     (if pathname request = ''/api/chat'' \<and> http_method request = ''POST'' then
        (case chat_message request of
           Inl e \<Rightarrow> (Inl e, messages, io)
         | Inr message \<Rightarrow>
             (let history = messages @ [\<lparr> role = User, content = Some message,
                                         tool_call_id = None, tool_calls = None, reasoning_content = None \<rparr>]
              in case callLLM B history io of
                   (Inl e, io') \<Rightarrow> (Inl e, messages, io')
                 | (Inr first, io') \<Rightarrow>
                     (case http_loop P B 8 first history io' of
                        (Inl e, history', io'') \<Rightarrow> (Inl e, messages, io'')
                      | (Inr final, history', io'') \<Rightarrow>
                          (Inr (ChatResponse (content final)),
                           history' @ [\<lparr> role = Assistant, content = Some (content_or_empty final),
                                          tool_call_id = None, tool_calls = None, reasoning_content = None \<rparr>],
                           io''))))
      else (Inr (PlainResponse ''NutriAgent is running''), messages, io))"

section \<open>Notions used by the properties\<close>

subsection \<open>Tools\<close>

text \<open>A name is registered when a tool of the registry carries it.\<close>

definition registered :: "string \<Rightarrow> bool" where
  "registered n \<longleftrightarrow> n \<in> set (map tool_name MCP_TOOLS)"

text \<open>The outcome of each sub-lookup of a comparison, in the order of the barcodes: every
  lookup runs against the log its predecessors left.\<close>

fun lookup_outcomes :: "platform \<Rightarrow> json list \<Rightarrow> string list \<Rightarrow> (exn + ProductSummary) list" where
  "lookup_outcomes P [] lg = []"
| "lookup_outcomes P (b # bs) lg =
     fst (getProductByBarcode P b lg) # lookup_outcomes P bs (snd (getProductByBarcode P b lg))"

text \<open>The values of the outcomes that are not errors, in order.\<close>

definition successes :: "(exn + 'a) list \<Rightarrow> 'a list" where
  "successes rs = [v. Inr v \<leftarrow> rs]"

text \<open>A fetched document that carries no product record.\<close>

definition no_product_record :: "json \<Rightarrow> bool" where
  "no_product_record data \<longleftrightarrow> \<not> nullish data \<and> nullish (prop_of data ''product'')"

text \<open>The two URLs requested for an encoded barcode.\<close>

definition product_url :: "string \<Rightarrow> string" where
  "product_url enc = OFF_BASE @ ''/api/v2/product/'' @ enc @ ''.json''"

definition allergen_url :: "string \<Rightarrow> string" where
  "allergen_url enc = OFF_BASE @ ''/api/v2/product/'' @ enc
     @ ''.json?fields=product_name,allergens,allergens_tags,traces,traces_tags''"

subsection \<open>Gateway\<close>

text \<open>The identifier a response to an envelope carries: \<open>req.id ?? null\<close>.\<close>

definition request_id :: "json \<Rightarrow> json" where
  "request_id req = nc (prop_of req ''id'') JNull"

text \<open>A request that passes the authorization gate and is a POST of JSON.\<close>

definition json_post :: "Request \<Rightarrow> Env \<Rightarrow> bool" where
  "json_post request env \<longleftrightarrow>
     checkMcpAuth request env = None \<and> req_method request = ''POST''
     \<and> str_includes (case content_type_header request of None \<Rightarrow> [] | Some c \<Rightarrow> c)
           ''application/json''"

text \<open>The transport response that carries a JSON-RPC response: status 200 and the session
  token.\<close>

definition json_response :: "string \<Rightarrow> JsonRpcResponse \<Rightarrow> Response" where
  "json_response sid res =
     \<lparr> status = 200,
       headers = [(''Content-Type'', ''application/json''), (''Mcp-Session-Id'', sid)],
       body = JsonBody res \<rparr>"

text \<open>A session identifier the store recognises: present, not empty, and a key of the store.\<close>

definition recognized :: "string option \<Rightarrow> gw_state \<Rightarrow> bool" where
  "recognized sid st \<longleftrightarrow> truthy_str sid \<and> the sid \<in> dom (sessions st)"

text \<open>The store after the session-close operation for an identifier, and the response to it.\<close>

definition close_session :: "string option \<Rightarrow> gw_state \<Rightarrow> gw_state" where
  "close_session sid st =
     (if truthy_str sid then st \<lparr> sessions := (sessions st)(the sid := None) \<rparr> else st)"

definition no_content :: Response where
  "no_content = \<lparr> status = 204, headers = [], body = NoBody \<rparr>"

subsection \<open>Agent\<close>

text \<open>The message \<open>callLLM\<close> returns for the \<open>k\<close>-th backend request, if that request gives one.\<close>

definition backend_message :: "backend \<Rightarrow> nat \<Rightarrow> ChatMessage option" where
  "backend_message B k =
     (case llm_respond B k of
        LlmNetworkFailure e \<Rightarrow> None
      | LlmReply st txt data \<Rightarrow>
          if \<not> ok st then None
          else (case data of Inl e \<Rightarrow> None | Inr [] \<Rightarrow> None | Inr (choice # _) \<Rightarrow> Some (normalise choice)))"

text \<open>The \<open>k\<close>-th backend request is answered with a message that requests tools.\<close>

definition requests_tools :: "backend \<Rightarrow> nat \<Rightarrow> bool" where
  "requests_tools B k = (case backend_message B k of None \<Rightarrow> False | Some m \<Rightarrow> has_tool_calls m)"

text \<open>The number of tool rounds a run went through, read off the envelopes it sent: each
  round announces itself once.\<close>

definition rounds :: "ws_event list \<Rightarrow> nat" where
  "rounds sent =
     length (filter (\<lambda>e. e = Pipeline ''mcp'' ''active'' ''Routing tool calls via MCP Server'') sent)"


fun is_error :: "ws_event \<Rightarrow> bool" where
  "is_error (ErrorEvent e) = True"
| "is_error _ = False"


definition answer_turn :: "string \<Rightarrow> ChatMessage" where
  "answer_turn c = \<lparr> role = Assistant, content = Some c, tool_call_id = None, tool_calls = None, reasoning_content = None \<rparr>"








text \<open>A message without its reasoning field, and the backend that sends the content
  \<open>callLLM\<close> would return and no reasoning field at all.\<close>

definition forget :: "ChatMessage \<Rightarrow> ChatMessage" where
  "forget m = m \<lparr> reasoning_content := None \<rparr>"

definition forgetful :: "backend \<Rightarrow> backend" where
  "forgetful B =
     B \<lparr> llm_respond := (\<lambda>k.
           case llm_respond B k of
             LlmNetworkFailure e \<Rightarrow> LlmNetworkFailure e
           | LlmReply st reason data \<Rightarrow>
               LlmReply st reason (map_sum id (map (\<lambda>m. forget (normalise m))) data)) \<rparr>"

subsection \<open>Concrete surroundings\<close>

text \<open>A platform with trivial encoders and printers, over a given data source.\<close>

definition sample_platform :: "(nat \<Rightarrow> string \<Rightarrow> http_result) \<Rightarrow> platform" where
  "sample_platform src =
     \<lparr> off_respond = src, num_str = (\<lambda>x. ''0''), encodeURIComponent = Inr,
       form_encode = (\<lambda>s. s), toLowerCase = (\<lambda>s. s), replace_ws = (\<lambda>s. s),
       randomUUID = (\<lambda>k. ''session-'' @ string_of_nat k),
       Date_now = (\<lambda>k. 1700000000000 + int k),
       json_parse = (\<lambda>s. Inr (JObj [])), stringify = (\<lambda>v. ''{}''),
       stringify_pretty = (\<lambda>v. ''{}'') \<rparr>"

text \<open>A data source that knows no product: every reply is a document without a product
  record.\<close>

definition no_product_source :: "nat \<Rightarrow> string \<Rightarrow> http_result" where
  "no_product_source k url = HttpReply 200 ''OK'' (Inr (JObj [(''status'', JNum 0)]))"

text \<open>A data source that knows one barcode and answers 404 to every other request, and the
  summary of the product it knows.\<close>

definition one_product_source :: "nat \<Rightarrow> string \<Rightarrow> http_result" where
  "one_product_source k url =
     (if url = ''https://world.openfoodfacts.org/api/v2/product/3017620422003.json''
      then HttpReply 200 ''OK''
             (Inr (JObj [(''status'', JNum 1),
                         (''product'', JObj [(''code'', JStr ''3017620422003''),
                                             (''product_name'', JStr ''Nutella'')])]))
      else HttpReply 404 ''Not Found'' (Inr (JObj [(''status'', JNum 0)])))"

definition nutella_summary :: ProductSummary where
  "nutella_summary =
     \<lparr> code = ''3017620422003'', product_name = ''Nutella'', brands = [], categories = [],
       nutriscore_grade = ''unknown'', nova_group = JStr ''unknown'',
       ecoscore_grade = ''unknown'', image_url = [],
       nutriments = \<lparr> energy_kcal_100g = JUndefined, fat_100g = JUndefined,
                      saturated_fat_100g = JUndefined, carbohydrates_100g = JUndefined,
                      sugars_100g = JUndefined, fiber_100g = JUndefined,
                      proteins_100g = JUndefined, salt_100g = JUndefined,
                      sodium_100g = JUndefined \<rparr>,
       ingredients_text = [], allergens = [], quantity = [] \<rparr>"

text \<open>Two \<open>tools/call\<close> envelopes, for a registered and for an unknown tool, and the POSTs
  that carry them.\<close>

definition call_allergen_request :: json where
  "call_allergen_request =
     JObj [(''jsonrpc'', JStr ''2.0''), (''id'', JNum 7), (''method'', JStr ''tools/call''),
           (''params'', JObj [(''name'', JStr ''get_allergen_info''),
                              (''arguments'', JObj [(''barcode'', JStr ''0000'')])])]"

definition call_unknown_request :: json where
  "call_unknown_request =
     JObj [(''jsonrpc'', JStr ''2.0''), (''id'', JNum 8), (''method'', JStr ''tools/call''),
           (''params'', JObj [(''name'', JStr ''delete_everything''),
                              (''arguments'', JObj [])])]"

definition call_allergen_post :: Request where
  "call_allergen_post =
     \<lparr> req_method = ''POST'', authorization = None, mcp_session_id = None,
       content_type_header = Some ''application/json'', req_json = Inr call_allergen_request \<rparr>"

definition call_unknown_post :: Request where
  "call_unknown_post =
     \<lparr> req_method = ''POST'', authorization = None, mcp_session_id = None,
       content_type_header = Some ''application/json'', req_json = Inr call_unknown_request \<rparr>"

text \<open>An open gateway with an empty session store, a session close and a GET.\<close>

definition empty_gateway :: gw_state where
  "empty_gateway = \<lparr> sessions = Map.empty, minted = 0, off_log = [] \<rparr>"

definition open_env :: Env where
  "open_env = \<lparr> MCP_API_KEY = None \<rparr>"

definition delete_request :: Request where
  "delete_request =
     \<lparr> req_method = ''DELETE'', authorization = None, mcp_session_id = Some ''session-0'',
       content_type_header = None, req_json = Inl (Exn ''SyntaxError'' ''Unexpected end of JSON input'') \<rparr>"

definition get_request :: Request where
  "get_request =
     \<lparr> req_method = ''GET'', authorization = None, mcp_session_id = None,
       content_type_header = None, req_json = Inl (Exn ''SyntaxError'' ''Unexpected end of JSON input'') \<rparr>"

text \<open>The POST that carries a JSON document, and envelopes a client can put into it: a
  \<open>tools/call\<close> whose \<open>name\<close> is an object with a key \<open>toString\<close>, a \<open>ping\<close> without and one
  with an identifier, a \<open>notifications/cancelled\<close> with an identifier, and a request whose
  \<open>method\<close> is such an object.\<close>

definition post_of :: "json \<Rightarrow> Request" where
  "post_of v =
     \<lparr> req_method = ''POST'', authorization = None, mcp_session_id = None,
       content_type_header = Some ''application/json'', req_json = Inr v \<rparr>"

definition call_object_name_request :: json where
  "call_object_name_request =
     JObj [(''jsonrpc'', JStr ''2.0''), (''id'', JNum 9), (''method'', JStr ''tools/call''),
           (''params'', JObj [(''name'', JObj [(''toString'', JStr ''x'')])])]"

definition idless_ping :: json where
  "idless_ping = JObj [(''jsonrpc'', JStr ''2.0''), (''method'', JStr ''ping'')]"

definition ping_1 :: json where
  "ping_1 = JObj [(''jsonrpc'', JStr ''2.0''), (''id'', JNum 1), (''method'', JStr ''ping'')]"

definition cancelled_with_id :: json where
  "cancelled_with_id =
     JObj [(''jsonrpc'', JStr ''2.0''), (''id'', JNum 5), (''method'', JStr ''notifications/cancelled'')]"

definition object_method_request :: json where
  "object_method_request =
     JObj [(''jsonrpc'', JStr ''2.0''), (''id'', JNum 2),
           (''method'', JObj [(''toString'', JStr ''x'')])]"

text \<open>Chat requests and backends: one that asks for two tools at once and then answers, one
  that asks for a tool every time, one that puts its answer in the reasoning field, and
  one that turns every request down.\<close>

definition chat_request :: "string \<Rightarrow> AgentRequest" where
  "chat_request message = \<lparr> pathname = ''/api/chat'', http_method = ''POST'', chat_message = Inr message \<rparr>"

definition fresh_io :: agent_io where
  "fresh_io = \<lparr> llm_calls = 0, mcp_calls = 0, src_log = [] \<rparr>"

definition lookup_call :: "string \<Rightarrow> ToolCall" where
  "lookup_call i = \<lparr> tc_id = i, fn_name = ''get_product_by_barcode'', fn_arguments = ''{}'' \<rparr>"

definition asks_for :: "ToolCall list \<Rightarrow> ChatMessage" where
  "asks_for tcs =
     \<lparr> role = Assistant, content = Some ''Working on it'', tool_call_id = None,
       tool_calls = Some tcs, reasoning_content = None \<rparr>"


definition eager_backend :: backend where
  "eager_backend =
     \<lparr> llm_respond = (\<lambda>k. LlmReply 200 ''OK'' (Inr [asks_for [lookup_call ''call'']])),
       mcp_callTool = (\<lambda>k n a. Inr ''{}'') \<rparr>"





section \<open>Properties of the tools\<close>

lemma allSettled_lookups_outcomes:
  "fst (allSettled_lookups P bs lg) = map settle (lookup_outcomes P bs lg)"
  by (induction bs arbitrary: lg) (simp_all add: case_prod_beta)

lemma fulfilled_values_settle: "fulfilled_values (map settle rs) = successes rs"
  by (induction rs) (auto simp: fulfilled_values_def successes_def settle_def split: sum.splits)

lemma length_lookup_outcomes: "length (lookup_outcomes P bs lg) = length bs"
  by (induction bs arbitrary: lg) auto

lemma compareProducts_successes:
  "fst (compareProducts P (JArr bs) lg) = Inr (successes (lookup_outcomes P bs lg))"
  by (simp add: compareProducts_def case_prod_beta allSettled_lookups_outcomes
        fulfilled_values_settle)

text \<open>
  Claim C6.  For every list of barcodes the comparison tool returns normally, whatever
  the sub-lookups do: its result is the list of the summaries of the lookups that
  succeeded, in the order of the barcodes, one outcome per barcode being considered.
  In particular, when the lookup of the first of two barcodes succeeds and the lookup of
  the second fails, the result is the first one's summary alone.  (The model records the
  order in which the lookups are started and their outcomes, not their overlap in time.)
\<close>

theorem compareProducts_best_effort:
  "fst (compareProducts P (JArr bs) lg) = Inr (successes (lookup_outcomes P bs lg))
   \<and> length (lookup_outcomes P bs lg) = length bs
   \<and> (lookup_outcomes P [a, b] lg = [Inr sa, Inl e]
        \<longrightarrow> fst (compareProducts P (JArr [a, b]) lg) = Inr [sa])"
  using compareProducts_successes length_lookup_outcomes by (auto simp: successes_def)

theorem compareProducts_best_effort_witness:
  "lookup_outcomes (sample_platform one_product_source)
       [JStr ''3017620422003'', JStr ''0000''] []
     = [Inr nutella_summary, Inl (Error (''OpenFoodFacts '' @ string_of_nat 404 @ '': Not Found''))]
   \<and> fst (compareProducts (sample_platform one_product_source)
            (JArr [JStr ''3017620422003'', JStr ''0000'']) []) = Inr [nutella_summary]"
proof -
  have h: "lookup_outcomes (sample_platform one_product_source)
       [JStr ''3017620422003'', JStr ''0000''] []
     = [Inr nutella_summary, Inl (Error (''OpenFoodFacts '' @ string_of_nat 404 @ '': Not Found''))]"
    by (simp add: sample_platform_def one_product_source_def getProductByBarcode_def
          offFetch_def ok_def OFF_BASE_def read_prop_def nullish_def summarise_def nc_def
          Let_def nutella_summary_def)
  from compareProducts_best_effort
      [of "sample_platform one_product_source" "[JStr ''3017620422003'', JStr ''0000'']" "[]"
          "JStr ''3017620422003''" "JStr ''0000''" nutella_summary
          "Error (''OpenFoodFacts '' @ string_of_nat 404 @ '': Not Found'')"]
  have "lookup_outcomes (sample_platform one_product_source)
          [JStr ''3017620422003'', JStr ''0000''] []
        = [Inr nutella_summary, Inl (Error (''OpenFoodFacts '' @ string_of_nat 404 @ '': Not Found''))]
      \<longrightarrow> fst (compareProducts (sample_platform one_product_source)
            (JArr [JStr ''3017620422003'', JStr ''0000'']) []) = Inr [nutella_summary]"
    by (rule conjunct2 [THEN conjunct2])
  with h show ?thesis by blast
qed

text \<open>
  Claim C10.  When the data source answers a barcode with a document that carries no
  product record, the allergen tool does not fail: it returns the name \<open>Unknown\<close>, empty
  allergen and trace strings and empty tag lists.  The lookup tool, given the same
  document, throws the not-found error.
\<close>

theorem allergen_lookup_tolerates_missing_product:
  assumes "js_String (num_str P) barcode = Inr b"
    and "encodeURIComponent P b = Inr enc"
    and "ok st" and "no_product_record data"
    and "off_respond P (length lg) (allergen_url enc) = HttpReply st txt (Inr data)"
    and "off_respond P (length lg) (product_url enc) = HttpReply st txt (Inr data)"
  shows "fst (getAllergenInfo P barcode lg) =
           Inr \<lparr> product_name = ''Unknown'', allergens = [], allergens_tags = JArr [],
                 traces = [], traces_tags = JArr [] \<rparr>
         \<and> fst (getProductByBarcode P barcode lg) =
             Inl (Error (''Product not found for barcode '' @ b))"
  using assms
  by (auto simp: getAllergenInfo_def getProductByBarcode_def offFetch_def read_prop_def nc_def
        nullish_def Let_def no_product_record_def allergen_url_def product_url_def)

theorem allergen_lookup_tolerates_missing_product_witness:
  "no_product_record (JObj [(''status'', JNum 0)])
   \<and> fst (getAllergenInfo (sample_platform no_product_source) (JStr ''0000'') []) =
           Inr \<lparr> product_name = ''Unknown'', allergens = [], allergens_tags = JArr [],
                 traces = [], traces_tags = JArr [] \<rparr>
   \<and> fst (getProductByBarcode (sample_platform no_product_source) (JStr ''0000'') []) =
             Inl (Error ''Product not found for barcode 0000'')"
  using allergen_lookup_tolerates_missing_product
    [of "sample_platform no_product_source" "JStr ''0000''" "''0000''" "''0000''" 200
        "JObj [(''status'', JNum 0)]" "[]" "''OK''"]
  by (simp add: sample_platform_def no_product_source_def ok_def no_product_record_def nullish_def)

section \<open>Properties of \<open>tools/call\<close>\<close>

lemma tool_names:
  "map tool_name MCP_TOOLS =
     [''get_product_by_barcode'', ''search_products'', ''get_products_by_category'',
      ''compare_products'', ''get_allergen_info'']"
  by (simp add: MCP_TOOLS_def)

lemma find_tool_registered:
  "registered n \<Longrightarrow> \<exists>t. find_tool (JStr n) = Some t \<and> tool_name t = n"
  by (auto simp: registered_def find_tool_def MCP_TOOLS_def)

lemma find_tool_None: "find_tool v = None \<longleftrightarrow> (\<forall>n. registered n \<longrightarrow> v \<noteq> JStr n)"
  by (auto simp: registered_def find_tool_def MCP_TOOLS_def find_None_iff)

lemma registered_nonempty: "registered n \<Longrightarrow> n \<noteq> []"
  by (auto simp: registered_def MCP_TOOLS_def)

lemma prop_of_not_falsy: "prop_of v k = JStr n \<Longrightarrow> \<not> falsy v"
  by (cases v) auto

lemma handleToolCall_registered:
  assumes "registered n" and "prop_of params ''name'' = JStr n"
  shows "handleToolCall P i params lg =
     (case dispatchTool P n (nc (prop_of params ''arguments'') (JObj [])) lg of
        (Inr r, lg') \<Rightarrow>
          (Inr (rpcOk i (ToolCallResult [\<lparr> content_type = ''text'',
                  content_text = stringify_pretty P (json_of_result r) \<rparr>] False)), lg')
      | (Inl err, lg') \<Rightarrow>
          (Inr (rpcOk i (ToolCallResult [\<lparr> content_type = ''text'',
                  content_text = ''Error: '' @ emessage err \<rparr>] True)), lg'))"
proof -
  obtain t where "find_tool (JStr n) = Some t" "tool_name t = n"
    using find_tool_registered[OF assms(1)] by blast
  moreover have "\<not> falsy params" using assms(2) by (rule prop_of_not_falsy)
  moreover have "\<not> falsy (JStr n)" using registered_nonempty[OF assms(1)] by simp
  ultimately show ?thesis
    using assms(2) by (simp add: handleToolCall_def Let_def)
qed

lemma handleMcpRequest_single:
  assumes "json_post request env" and "req_json request = Inr req"
    and "prop_of req ''method'' = JStr m"
    and "handleRpcMethod P req (off_log st) = (Inr (Some res), lg')"
  shows "handleMcpRequest P request env st =
           (Inr (json_response (fst (getOrCreateSession P (mcp_session_id request) st)) res),
            (snd (getOrCreateSession P (mcp_session_id request) st)) \<lparr> off_log := lg' \<rparr>)"
proof -
  have o: "off_log (snd (getOrCreateSession P (mcp_session_id request) st)) = off_log st"
    by (simp add: getOrCreateSession_def Let_def)
  show ?thesis
    using assms o
    by (cases req) (simp_all add: handleMcpRequest_def json_post_def case_prod_beta json_response_def)
qed

text \<open>
  Claim C1.  A \<open>tools/call\<close> request that names a registered tool is answered with a
  successful JSON-RPC response and never with a thrown error: the response has a result and
  no error member, carries the identifier of the request, and its payload is the text of
  the tool's result with \<open>isError\<close> false when the tool returns, and the text
  \<open>Error:\<close> followed by the failure message with \<open>isError\<close> true when the tool throws.
  Sent to the gateway as a POST of JSON, the request gets this response with status 200.
\<close>

theorem tools_call_registered:
  assumes "registered n"
    and "\<not> nullish req"
    and "prop_of req ''method'' = JStr ''tools/call''"
    and "prop_of (prop_of req ''params'') ''name'' = JStr n"
  shows "\<exists>resp. fst (handleRpcMethod P req lg) = Inr (Some resp)
           \<and> error resp = None
           \<and> resp_id resp = request_id req
           \<and> (case fst (dispatchTool P n
                         (nc (prop_of (prop_of req ''params'') ''arguments'') (JObj [])) lg) of
                 Inr r \<Rightarrow>
                   result resp = Some (ToolCallResult
                     [\<lparr> content_type = ''text'',
                        content_text = stringify_pretty P (json_of_result r) \<rparr>] False)
               | Inl err \<Rightarrow>
                   result resp = Some (ToolCallResult
                     [\<lparr> content_type = ''text'',
                        content_text = ''Error: '' @ emessage err \<rparr>] True))
           \<and> (json_post request env \<and> req_json request = Inr req \<and> off_log st = lg \<longrightarrow>
                 fst (handleMcpRequest P request env st)
                   = Inr (json_response (fst (getOrCreateSession P (mcp_session_id request) st)) resp))"
proof -
  let ?d = "dispatchTool P n (nc (prop_of (prop_of req ''params'') ''arguments'') (JObj [])) lg"
  have h: "handleRpcMethod P req lg =
             returning Some (handleToolCall P (request_id req) (prop_of req ''params'') lg)"
    using assms(2,3) by (simp add: handleRpcMethod_def read_prop_def Let_def request_id_def)
  obtain r lg' where d: "?d = (r, lg')" by (cases ?d)
  define resp where "resp = rpcOk (request_id req)
     (case r of
        Inr v \<Rightarrow> ToolCallResult [\<lparr> content_type = ''text'',
                   content_text = stringify_pretty P (json_of_result v) \<rparr>] False
      | Inl err \<Rightarrow> ToolCallResult [\<lparr> content_type = ''text'',
                   content_text = ''Error: '' @ emessage err \<rparr>] True)"
  have run: "handleRpcMethod P req lg = (Inr (Some resp), lg')"
    using d by (cases r)
      (simp_all add: h handleToolCall_registered[OF assms(1,4)] returning_def resp_def)
  have props: "error resp = None \<and> resp_id resp = request_id req
      \<and> (case fst ?d of
            Inr r \<Rightarrow> result resp = Some (ToolCallResult
                     [\<lparr> content_type = ''text'',
                        content_text = stringify_pretty P (json_of_result r) \<rparr>] False)
          | Inl err \<Rightarrow> result resp = Some (ToolCallResult
                     [\<lparr> content_type = ''text'',
                        content_text = ''Error: '' @ emessage err \<rparr>] True))"
    using d by (cases r) (simp_all add: resp_def rpcOk_def)
  have gw: "json_post request env \<and> req_json request = Inr req \<and> off_log st = lg \<longrightarrow>
      fst (handleMcpRequest P request env st)
        = Inr (json_response (fst (getOrCreateSession P (mcp_session_id request) st)) resp)"
    using handleMcpRequest_single[of request env req "''tools/call''" P st resp lg'] assms(3) run
    by auto
  show ?thesis
    using run props gw by (intro exI[of _ resp]) simp
qed

theorem tools_call_registered_witness:
  "registered ''get_allergen_info''
   \<and> json_post call_allergen_post open_env
   \<and> (\<exists>resp. fst (handleRpcMethod (sample_platform no_product_source) call_allergen_request [])
                 = Inr (Some resp)
             \<and> error resp = None
             \<and> resp_id resp = JNum 7
             \<and> result resp = Some (ToolCallResult
                   [\<lparr> content_type = ''text'', content_text = ''{}'' \<rparr>] False)
             \<and> fst (handleMcpRequest (sample_platform no_product_source) call_allergen_post
                      open_env empty_gateway)
                 = Inr (json_response (''session-'' @ string_of_nat 0) resp))"
proof -
  have r: "registered ''get_allergen_info''"
    by (simp add: registered_def MCP_TOOLS_def)
  have p: "json_post call_allergen_post open_env"
    by (simp add: json_post_def checkMcpAuth_def truthy_str_def open_env_def
          call_allergen_post_def startsWith_def)
  have d: "fst (dispatchTool (sample_platform no_product_source) ''get_allergen_info''
                  (JObj [(''barcode'', JStr ''0000'')]) [])
           = Inr (RAllergen \<lparr> product_name = ''Unknown'', allergens = [], allergens_tags = JArr [],
                                traces = [], traces_tags = JArr [] \<rparr>)"
    by (simp add: dispatchTool_def returning_def read_prop_def nullish_def getAllergenInfo_def
          sample_platform_def no_product_source_def offFetch_def ok_def nc_def Let_def)
  have s: "fst (getOrCreateSession (sample_platform no_product_source)
                  (mcp_session_id call_allergen_post) empty_gateway) = ''session-'' @ string_of_nat 0"
    by (simp add: getOrCreateSession_def call_allergen_post_def truthy_str_def empty_gateway_def
          sample_platform_def Let_def)
  have j: "req_json call_allergen_post = Inr call_allergen_request"
    and l: "off_log empty_gateway = []"
    by (simp_all add: call_allergen_post_def empty_gateway_def)
  show ?thesis
    using r p d s j l tools_call_registered
      [of "''get_allergen_info''" call_allergen_request "sample_platform no_product_source" "[]"
          call_allergen_post open_env empty_gateway]
    by (simp add: call_allergen_request_def nullish_def nc_def sample_platform_def request_id_def)
qed

text \<open>
  What \<open>tools/call\<close> does with a name that is not registered.  When the name converts to
  text, the answer is the invalid-params error, the log of data-source requests is left as
  it was and the answer does not depend on the data source: no executor ran.
\<close>

lemma tools_call_unregistered_convertible:
  assumes "\<not> nullish req"
    and "prop_of req ''method'' = JStr ''tools/call''"
    and "\<forall>n. registered n \<longrightarrow> prop_of (prop_of req ''params'') ''name'' \<noteq> JStr n"
    and "js_String (num_str P) (prop_of (prop_of req ''params'') ''name'') = Inr s"
  shows "\<exists>msg. handleRpcMethod P req lg
                 = (Inr (Some (rpcError (request_id req) (- 32602) msg)), lg)"
proof -
  have none: "find_tool (prop_of (prop_of req ''params'') ''name'') = None"
    using assms(3) by (simp add: find_tool_None)
  have h: "handleRpcMethod P req lg =
             returning Some (handleToolCall P (request_id req) (prop_of req ''params'') lg)"
    using assms(1,2) by (simp add: handleRpcMethod_def read_prop_def Let_def request_id_def)
  have "\<exists>msg. handleToolCall P (request_id req) (prop_of req ''params'') lg
             = (Inr (rpcError (request_id req) (- 32602) msg), lg)"
    using none assms(4) by (auto simp: handleToolCall_def Let_def)
  then show ?thesis by (auto simp: h returning_def)
qed

lemma snd_returning: "snd (returning f r) = snd r"
  by (cases r) (simp add: returning_def split: sum.splits)

lemma tools_call_unregistered_log:
  assumes "\<not> nullish req"
    and "prop_of req ''method'' = JStr ''tools/call''"
    and "\<forall>n. registered n \<longrightarrow> prop_of (prop_of req ''params'') ''name'' \<noteq> JStr n"
  shows "snd (handleRpcMethod P req lg) = lg
       \<and> handleRpcMethod (P \<lparr> off_respond := src \<rparr>) req lg = handleRpcMethod P req lg"
proof -
  have none: "find_tool (prop_of (prop_of req ''params'') ''name'') = None"
    using assms(3) by (simp add: find_tool_None)
  have h: "\<And>Q. handleRpcMethod Q req lg =
             returning Some (handleToolCall Q (request_id req) (prop_of req ''params'') lg)"
    using assms(1,2) by (simp add: handleRpcMethod_def read_prop_def Let_def request_id_def)
  have "snd (handleToolCall P (request_id req) (prop_of req ''params'') lg) = lg"
    using none by (simp add: handleToolCall_def Let_def)
  moreover have "handleToolCall (P \<lparr> off_respond := src \<rparr>) (request_id req) (prop_of req ''params'') lg
             = handleToolCall P (request_id req) (prop_of req ''params'') lg"
    using none by (simp add: handleToolCall_def Let_def)
  ultimately show ?thesis
    by (simp add: h snd_returning)
qed

text \<open>
  Claim C2.  The registry is the constant \<open>MCP_TOOLS\<close>, and an unknown name that is a string
  is answered with the error \<open>-32602\<close>.  The error text is built by the template literal
  \<open>Unknown tool: ${toolName}\<close>, ahead of the \<open>try\<close> block of \<open>handleToolCall\<close>.  The name is
  read off the JSON body unchecked, so it can be an object with a key \<open>toString\<close>; the
  conversion of such a name to text throws, and the throw leaves \<open>handleToolCall\<close>,
  \<open>handleRpcMethod\<close> and \<open>handleMcpRequest\<close>: the caller gets no JSON-RPC error but a failed
  request handler.
\<close>

theorem unknown_object_name_rejects:
  "find_tool (JObj [(''toString'', JStr ''x'')]) = None
   \<and> handleRpcMethod (sample_platform one_product_source) call_object_name_request []
       = (Inl (TypeError ''Cannot convert object to primitive value''), [])
   \<and> fst (handleMcpRequest (sample_platform one_product_source) (post_of call_object_name_request)
            open_env empty_gateway)
       = Inl (TypeError ''Cannot convert object to primitive value'')
   \<and> fst (handleMcpRequest (sample_platform one_product_source) call_unknown_post
            open_env empty_gateway)
       = Inr (json_response (''session-'' @ string_of_nat 0)
                (rpcError (JNum 8) (- 32602) ''Unknown tool: delete_everything''))"
  by (simp add: handleMcpRequest_def checkMcpAuth_def truthy_str_def open_env_def post_of_def
        startsWith_def getOrCreateSession_def empty_gateway_def Let_def json_response_def
        handleRpcMethod_def handleToolCall_def call_object_name_request_def read_prop_def
        call_unknown_post_def call_unknown_request_def
        nullish_def nc_def find_tool_def MCP_TOOLS_def returning_def sample_platform_def)

section \<open>Properties of the request handler\<close>

text \<open>
  Claim C7, as stated, fails: the response to a session close carries no session token.
\<close>

theorem delete_response_has_no_session_token:
  "map_sum id session_token (fst (handleMcpRequest (sample_platform no_product_source)
       delete_request open_env empty_gateway)) = Inr None"
  by (simp add: handleMcpRequest_def checkMcpAuth_def truthy_str_def delete_request_def
        open_env_def session_token_def)

lemma session_post:
  assumes "json_post request env" and "req_json request = Inr v"
    and "fst (handleMcpRequest P request env st) = Inr resp"
  shows "session_token resp = Some (fst (getOrCreateSession P (mcp_session_id request) st))
       \<and> sessions (snd (handleMcpRequest P request env st))
           = sessions (snd (getOrCreateSession P (mcp_session_id request) st))"
proof -
  have g: "\<And>lg. getOrCreateSession P (mcp_session_id request) (st \<lparr> off_log := lg \<rparr>)
      = (fst (getOrCreateSession P (mcp_session_id request) st),
         (snd (getOrCreateSession P (mcp_session_id request) st)) \<lparr> off_log := lg \<rparr>)"
    by (simp add: getOrCreateSession_def Let_def)
  show ?thesis
  proof (cases "\<exists>items. v = JArr items")
    case True
    then obtain items where v: "v = JArr items" by blast
    show ?thesis
      using assms v
      by (auto simp: handleMcpRequest_def json_post_def g session_token_def case_prod_beta
            split: sum.splits if_splits)
  next
    case False
    then have "handleMcpRequest P request env st =
        (case getOrCreateSession P (mcp_session_id request) st of
           (sessionId, st') \<Rightarrow>
             (case handleRpcMethod P v (off_log st') of
                (Inl e, lg') \<Rightarrow> (Inl e, st' \<lparr> off_log := lg' \<rparr>)
              | (Inr None, lg') \<Rightarrow>
                  (Inr \<lparr> status = 202, headers = [(''Mcp-Session-Id'', sessionId)],
                         body = NoBody \<rparr>, st' \<lparr> off_log := lg' \<rparr>)
              | (Inr (Some res), lg') \<Rightarrow>
                  (Inr \<lparr> status = 200,
                         headers = [(''Content-Type'', ''application/json''),
                                    (''Mcp-Session-Id'', sessionId)],
                         body = JsonBody res \<rparr>, st' \<lparr> off_log := lg' \<rparr>)))"
      using assms(1,2) by (cases v) (simp_all add: handleMcpRequest_def json_post_def)
    then show ?thesis
      using assms(3)
      by (auto simp: session_token_def case_prod_beta split: sum.splits option.splits)
  qed
qed

text \<open>
  Claim C7, amended.  For a request that passes the authorization gate: the response to a
  GET, and every response to a POST whose body parses as JSON, carries a session token,
  the identifier \<open>getOrCreateSession\<close> gives for the request's identifier, and the store
  becomes the one \<open>getOrCreateSession\<close> leaves.  An identifier that is missing, empty or
  not in the store is answered with the next identifier drawn from \<open>randomUUID\<close>, which is
  registered in the store with its creation time; a recognised identifier is returned
  unchanged and the state is untouched.  A session close answers 204 without a token
  and removes the identifier from the store; closing again gives the same response and
  the same store.
\<close>

theorem session_lifecycle:
  assumes "checkMcpAuth request env = None"
  shows "(req_method request = ''GET'' \<longrightarrow>
            (\<exists>resp. handleMcpRequest P request env st
                      = (Inr resp, snd (getOrCreateSession P (mcp_session_id request) st))
                \<and> session_token resp
                      = Some (fst (getOrCreateSession P (mcp_session_id request) st))))
       \<and> (json_post request env \<and> req_json request = Inr v
            \<and> fst (handleMcpRequest P request env st) = Inr resp' \<longrightarrow>
            session_token resp' = Some (fst (getOrCreateSession P (mcp_session_id request) st))
            \<and> sessions (snd (handleMcpRequest P request env st))
                = sessions (snd (getOrCreateSession P (mcp_session_id request) st)))
       \<and> (\<not> recognized sid st \<longrightarrow>
            fst (getOrCreateSession P sid st) = randomUUID P (minted st)
            \<and> sessions (snd (getOrCreateSession P sid st))
                = (sessions st)(randomUUID P (minted st) \<mapsto> Date_now P (minted st)))
       \<and> (recognized sid st \<longrightarrow> getOrCreateSession P sid st = (the sid, st))
       \<and> (req_method request = ''DELETE'' \<longrightarrow>
            handleMcpRequest P request env st
              = (Inr no_content, close_session (mcp_session_id request) st)
            \<and> handleMcpRequest P request env (close_session (mcp_session_id request) st)
              = (Inr no_content, close_session (mcp_session_id request) st)
            \<and> \<not> recognized (mcp_session_id request) (close_session (mcp_session_id request) st))"
proof -
  have get: "req_method request = ''GET'' \<longrightarrow>
            (\<exists>resp. handleMcpRequest P request env st
                      = (Inr resp, snd (getOrCreateSession P (mcp_session_id request) st))
                \<and> session_token resp
                      = Some (fst (getOrCreateSession P (mcp_session_id request) st)))"
    using assms by (simp add: handleMcpRequest_def case_prod_beta session_token_def)
  have post: "json_post request env \<and> req_json request = Inr v
            \<and> fst (handleMcpRequest P request env st) = Inr resp' \<longrightarrow>
            session_token resp' = Some (fst (getOrCreateSession P (mcp_session_id request) st))
            \<and> sessions (snd (handleMcpRequest P request env st))
                = sessions (snd (getOrCreateSession P (mcp_session_id request) st))"
    using session_post by blast
  have mint: "\<not> recognized sid st \<longrightarrow>
            fst (getOrCreateSession P sid st) = randomUUID P (minted st)
            \<and> sessions (snd (getOrCreateSession P sid st))
                = (sessions st)(randomUUID P (minted st) \<mapsto> Date_now P (minted st))"
    by (simp add: getOrCreateSession_def recognized_def Let_def)
  have echo: "recognized sid st \<longrightarrow> getOrCreateSession P sid st = (the sid, st)"
    by (simp add: getOrCreateSession_def recognized_def)
  have closed: "close_session (mcp_session_id request) (close_session (mcp_session_id request) st)
       = close_session (mcp_session_id request) st"
    by (simp add: close_session_def)
  have del: "\<And>s. req_method request = ''DELETE'' \<Longrightarrow>
       handleMcpRequest P request env s = (Inr no_content, close_session (mcp_session_id request) s)"
    using assms by (simp add: handleMcpRequest_def no_content_def close_session_def)
  have gone: "\<not> recognized (mcp_session_id request) (close_session (mcp_session_id request) st)"
    by (simp add: recognized_def close_session_def)
  show ?thesis
    using get post mint echo del[of st] del[of "close_session (mcp_session_id request) st"] closed gone
    by simp
qed

theorem session_lifecycle_witness:
  "checkMcpAuth get_request open_env = None
   \<and> (\<exists>resp st'. handleMcpRequest (sample_platform no_product_source) get_request open_env
                      empty_gateway = (Inr resp, st')
          \<and> session_token resp = Some (''session-'' @ string_of_nat 0)
          \<and> sessions st' = [''session-'' @ string_of_nat 0 \<mapsto> 1700000000000])"
proof -
  have a: "checkMcpAuth get_request open_env = None"
    by (simp add: checkMcpAuth_def truthy_str_def open_env_def)
  have g: "req_method get_request = ''GET''" and n: "mcp_session_id get_request = None"
    by (simp_all add: get_request_def)
  have r: "\<not> recognized None empty_gateway"
    by (simp add: recognized_def truthy_str_def)
  from session_lifecycle [OF a, of "sample_platform no_product_source" empty_gateway JNull no_content None] g n r
  have "(\<exists>resp. handleMcpRequest (sample_platform no_product_source) get_request open_env
                   empty_gateway
                 = (Inr resp, snd (getOrCreateSession (sample_platform no_product_source) None
                                     empty_gateway))
            \<and> session_token resp
                 = Some (fst (getOrCreateSession (sample_platform no_product_source) None
                                empty_gateway)))
        \<and> fst (getOrCreateSession (sample_platform no_product_source) None empty_gateway)
            = randomUUID (sample_platform no_product_source) (minted empty_gateway)
        \<and> sessions (snd (getOrCreateSession (sample_platform no_product_source) None empty_gateway))
            = (sessions empty_gateway)(randomUUID (sample_platform no_product_source) (minted empty_gateway)
                 \<mapsto> Date_now (sample_platform no_product_source) (minted empty_gateway))"
    by metis
  then show ?thesis
    using a by (auto simp: sample_platform_def empty_gateway_def)
qed

text \<open>
  Claim C5.  The dispatcher decides by the method name alone what a notification is, while
  the comments of the handler say that a notification is an envelope without \<open>id\<close>.  So a
  batch that holds nothing but a \<open>ping\<close> without \<open>id\<close> is answered with status 200 and an
  array of one response (with \<open>id\<close> \<open>null\<close>) and not with 202; a \<open>notifications/cancelled\<close>
  that carries an \<open>id\<close> gets no response.  The items are not processed independently
  either: the batch goes through \<open>Promise.all\<close>, so one item whose method cannot be
  converted to text, or one item that is \<open>null\<close>, makes the whole request handler fail and
  the valid \<open>ping\<close> beside it gets no answer.
\<close>

theorem idless_ping_batch_is_answered:
  "fst (handleMcpRequest (sample_platform one_product_source) (post_of (JArr [idless_ping]))
          open_env empty_gateway)
     = Inr \<lparr> status = 200,
             headers = [(''Content-Type'', ''application/json''),
                        (''Mcp-Session-Id'', ''session-'' @ string_of_nat 0)],
             body = JsonBatch [rpcOk JNull EmptyResult] \<rparr>
   \<and> fst (handleMcpRequest (sample_platform one_product_source) (post_of (JArr [cancelled_with_id]))
          open_env empty_gateway)
     = Inr \<lparr> status = 202, headers = [(''Mcp-Session-Id'', ''session-'' @ string_of_nat 0)],
             body = NoBody \<rparr>
   \<and> fst (handleMcpRequest (sample_platform one_product_source)
            (post_of (JArr [ping_1, object_method_request])) open_env empty_gateway)
     = Inl (TypeError ''Cannot convert object to primitive value'')
   \<and> fst (handleMcpRequest (sample_platform one_product_source)
            (post_of (JArr [ping_1, JNull])) open_env empty_gateway)
     = Inl (TypeError ''Cannot read properties of null or undefined (reading id)'')"
  by (simp add: handleMcpRequest_def checkMcpAuth_def truthy_str_def open_env_def post_of_def
        startsWith_def getOrCreateSession_def empty_gateway_def Let_def non_null_def
        handleRpcMethod_def idless_ping_def cancelled_with_id_def ping_1_def
        object_method_request_def read_prop_def nullish_def nc_def sample_platform_def)

section \<open>Properties of the agent\<close>

lemma callLLM_calls: "llm_calls (snd (callLLM B h io)) = Suc (llm_calls io)"
  by (simp add: callLLM_def Let_def split: llm_result.splits sum.splits list.splits)

lemma callLLM_Some:
  "backend_message B (llm_calls io) = Some m \<Longrightarrow>
   callLLM B h io = (Inr m, io \<lparr> llm_calls := Suc (llm_calls io) \<rparr>)"
  by (auto simp: callLLM_def backend_message_def Let_def
        split: llm_result.splits sum.splits list.splits if_splits)


lemma callLLM_None:
  "backend_message B (llm_calls io) = None \<Longrightarrow> \<exists>e. fst (callLLM B h io) = Inl e"
  by (auto simp: callLLM_def backend_message_def Let_def
        split: llm_result.splits sum.splits list.splits if_splits)

lemma executeTool_calls: "llm_calls (snd (executeTool P B n a io)) = llm_calls io"
  by (simp add: executeTool_def Let_def case_prod_beta split: sum.splits)

lemma tool_result_text_calls: "llm_calls (snd (tool_result_text P B tc io)) = llm_calls io"
  by (simp add: tool_result_text_def case_prod_beta executeTool_calls split: sum.splits)

lemma run_tool_calls_calls:
  "llm_calls (snd (snd (run_tool_calls P B tcs h s io))) = llm_calls io"
  by (induction tcs arbitrary: h s io) (simp_all add: case_prod_beta tool_result_text_calls)

lemma run_tool_calls_rounds:
  "rounds (fst (snd (run_tool_calls P B tcs h s io))) = rounds s"
  by (induction tcs arbitrary: h s io) (simp_all add: case_prod_beta rounds_def)

lemma run_tool_calls_http_calls:
  "llm_calls (snd (run_tool_calls_http P B tcs h io)) = llm_calls io"
  by (induction tcs arbitrary: h io) (simp_all add: case_prod_beta tool_result_text_calls)

lemma tool_loop_stop:
  "\<not> (has_tool_calls m \<and> n > 0) \<Longrightarrow> tool_loop P B n m h s io = (Inr m, h, s, io)"
  by (subst tool_loop.simps) (rule if_not_P)

lemma http_loop_stop:
  "\<not> (has_tool_calls m \<and> n > 0) \<Longrightarrow> http_loop P B n m h io = (Inr m, h, io)"
  by (subst http_loop.simps) (rule if_not_P)

lemma tool_loop_bound:
  "llm_calls (snd (snd (snd (tool_loop P B n m h s io)))) \<le> llm_calls io + n
   \<and> rounds (fst (snd (snd (tool_loop P B n m h s io)))) + llm_calls io
       = rounds s + llm_calls (snd (snd (snd (tool_loop P B n m h s io))))"
proof (induction P B n m h s io rule: tool_loop.induct)
  case (1 P B n m h s io)
  show ?case
  proof (cases "has_tool_calls m \<and> n > 0")
    case False
    show ?thesis by (simp add: tool_loop_stop[OF False])
  next
    case True
    obtain h1 s1 io1 where r: "run_tool_calls P B (the (tool_calls m)) (h @ [m])
        (s @ [Pipeline ''mcp'' ''active'' ''Routing tool calls via MCP Server'']) io = (h1, s1, io1)"
      by (metis prod_cases3)
    have c1: "llm_calls io1 = llm_calls io"
      using run_tool_calls_calls[of P B "the (tool_calls m)" "h @ [m]"
          "s @ [Pipeline ''mcp'' ''active'' ''Routing tool calls via MCP Server'']" io] r by simp
    have r1: "rounds s1 = Suc (rounds s)"
      using run_tool_calls_rounds[of P B "the (tool_calls m)" "h @ [m]"
          "s @ [Pipeline ''mcp'' ''active'' ''Routing tool calls via MCP Server'']" io] r
      by (simp add: rounds_def)
    obtain res io2 where c: "callLLM B h1 io1 = (res, io2)" by (cases "callLLM B h1 io1")
    have c2: "llm_calls io2 = Suc (llm_calls io)"
      using callLLM_calls[of B h1 io1] c c1 by simp
    show ?thesis
    proof (cases res)
      case (Inl e)
      then show ?thesis
        using True r c c2 r1 by (simp add: tool_loop.simps[of P B n m] rounds_def)
    next
      case (Inr nxt)
      have "tool_loop P B n m h s io = tool_loop P B (n - 1) nxt h1
              (s1 @ [Pipeline ''llm'' ''active'' ''Analyzing tool results'', Status ''thinking'']) io2"
        using True r c Inr by (simp add: tool_loop.simps[of P B n m])
      moreover have "rounds (s1 @ [Pipeline ''llm'' ''active'' ''Analyzing tool results'', Status ''thinking''])
          = Suc (rounds s)"
        using r1 by (simp add: rounds_def)
      ultimately show ?thesis
        using "1.IH"[OF True r[symmetric] refl c[symmetric] Inr] c2 True
        by auto
    qed
  qed
qed



lemma http_loop_answers:
  "\<forall>j<n. backend_message B (llm_calls io + j) \<noteq> None \<Longrightarrow>
   \<exists>final. fst (http_loop P B n m h io) = Inr final"
proof (induction P B n m h io rule: http_loop.induct)
  case (1 P B n m h io)
  show ?case
  proof (cases "has_tool_calls m \<and> n > 0")
    case False
    show ?thesis by (simp add: http_loop_stop[OF False])
  next
    case True
    obtain h1 io1 where r: "run_tool_calls_http P B (the (tool_calls m)) (h @ [m]) io = (h1, io1)"
      by (cases "run_tool_calls_http P B (the (tool_calls m)) (h @ [m]) io")
    have c1: "llm_calls io1 = llm_calls io"
      using run_tool_calls_http_calls[of P B "the (tool_calls m)" "h @ [m]" io] r by simp
    have "backend_message B (llm_calls io + 0) \<noteq> None"
      using "1.prems" True by blast
    then obtain nxt where "backend_message B (llm_calls io1) = Some nxt"
      using c1 by auto
    then have c: "callLLM B h1 io1 = (Inr nxt, io1 \<lparr> llm_calls := Suc (llm_calls io1) \<rparr>)"
      by (rule callLLM_Some)
    have rest: "\<forall>j<n - 1. backend_message B (llm_calls (io1 \<lparr> llm_calls := Suc (llm_calls io1) \<rparr>) + j) \<noteq> None"
    proof (intro allI impI)
      fix j assume "j < n - 1"
      then have "Suc j < n" by simp
      then have "backend_message B (llm_calls io + Suc j) \<noteq> None" using "1.prems" by blast
      then show "backend_message B (llm_calls (io1 \<lparr> llm_calls := Suc (llm_calls io1) \<rparr>) + j) \<noteq> None"
        using c1 by simp
    qed
    have "http_loop P B n m h io = http_loop P B (n - 1) nxt h1
              (io1 \<lparr> llm_calls := Suc (llm_calls io1) \<rparr>)"
      using True r c by (simp add: http_loop.simps[of P B n m])
    then show ?thesis
      using "1.IH"[OF True r[symmetric] c[symmetric] refl rest] by simp
  qed
qed

lemma handleChat_bound:
  "llm_calls (snd (snd (handleChat P B u ms io))) \<le> llm_calls io + 9
   \<and> rounds (fst (snd (handleChat P B u ms io))) \<le> 8
   \<and> Suc (rounds (fst (snd (handleChat P B u ms io)))) + llm_calls io
       = llm_calls (snd (snd (handleChat P B u ms io)))"
proof -
  let ?h = "ms @ [\<lparr> role = User, content = Some u, tool_call_id = None, tool_calls = None, reasoning_content = None \<rparr>]"
  let ?s = "[Pipeline ''agent'' ''active'' ''Processing your query'', Status ''thinking'',
             Pipeline ''llm'' ''active'' ''Reasoning with GLM-4.7-Flash'']"
  obtain res io1 where c: "callLLM B ?h io = (res, io1)" by (cases "callLLM B ?h io")
  have c1: "llm_calls io1 = Suc (llm_calls io)" using callLLM_calls[of B ?h io] c by simp
  show ?thesis
  proof (cases res)
    case (Inl e)
    then show ?thesis using c c1 by (simp add: handleChat_def rounds_def)
  next
    case (Inr first)
    obtain r h' s' io' where t: "tool_loop P B 8 first ?h ?s io1 = (r, h', s', io')"
      by (metis prod_cases4)
    have b: "llm_calls io' \<le> llm_calls io1 + 8" "rounds s' + llm_calls io1 = rounds ?s + llm_calls io'"
      using tool_loop_bound[of P B 8 first ?h ?s io1] t by simp_all
    have r0: "rounds ?s = 0" by (simp add: rounds_def)
    have e: "\<And>x y. rounds (s' @ [Pipeline ''done'' ''complete'' x, ResponseEvent y]) = rounds s'"
         "\<And>x y. rounds (s' @ [Pipeline ''done'' ''complete'' x, ErrorEvent y]) = rounds s'"
      by (simp_all add: rounds_def)
    show ?thesis
      using c Inr t b c1 r0 by (cases r) (auto simp: handleChat_def e)
  qed
qed



lemma onRequest_answers:
  assumes "\<forall>j<9. backend_message B (llm_calls io + j) \<noteq> None"
  shows "\<exists>c. fst (onRequest P B (chat_request u) ms io) = Inr (ChatResponse c)"
proof -
  let ?h = "ms @ [\<lparr> role = User, content = Some u, tool_call_id = None, tool_calls = None, reasoning_content = None \<rparr>]"
  have "backend_message B (llm_calls io + 0) \<noteq> None" using assms[rule_format, of 0] by simp
  then obtain first where "backend_message B (llm_calls io) = Some first" by auto
  then have c: "callLLM B ?h io = (Inr first, io \<lparr> llm_calls := Suc (llm_calls io) \<rparr>)"
    by (rule callLLM_Some)
  have rest: "\<forall>j<8. backend_message B (llm_calls (io \<lparr> llm_calls := Suc (llm_calls io) \<rparr>) + j) \<noteq> None"
  proof (intro allI impI)
    fix j :: nat assume "j < 8"
    then have "Suc j < 9" by simp
    then have "backend_message B (llm_calls io + Suc j) \<noteq> None" using assms[rule_format, of "Suc j"] by simp
    then show "backend_message B (llm_calls (io \<lparr> llm_calls := Suc (llm_calls io) \<rparr>) + j) \<noteq> None"
      by simp
  qed
  obtain final where "fst (http_loop P B 8 first ?h (io \<lparr> llm_calls := Suc (llm_calls io) \<rparr>)) = Inr final"
    using http_loop_answers[OF rest] by blast
  then obtain h' io' where
    "http_loop P B 8 first ?h (io \<lparr> llm_calls := Suc (llm_calls io) \<rparr>) = (Inr final, h', io')"
    by (metis prod.collapse)
  then show ?thesis using c by (simp add: onRequest_def chat_request_def)
qed














lemma run_tool_calls_no_error:
  "filter is_error (fst (snd (run_tool_calls P B tcs h s io))) = filter is_error s"
  by (induction tcs arbitrary: h s io) (simp_all add: case_prod_beta)

lemma tool_loop_exhaust:
  "has_tool_calls m \<Longrightarrow> \<forall>j<n. requests_tools B (llm_calls io + j) \<Longrightarrow>
   \<exists>h' s' io'. tool_loop P B n m h s io
       = (Inr (if n = 0 then m else the (backend_message B (llm_calls io + n - 1))), h', s', io')
     \<and> llm_calls io' = llm_calls io + n
     \<and> filter is_error s' = filter is_error s"
proof (induction n arbitrary: m h s io)
  case 0
  then show ?case by (simp add: tool_loop_stop)
next
  case (Suc n)
  obtain h1 s1 io1 where r: "run_tool_calls P B (the (tool_calls m)) (h @ [m])
      (s @ [Pipeline ''mcp'' ''active'' ''Routing tool calls via MCP Server'']) io = (h1, s1, io1)"
    by (metis prod_cases3)
  have c1: "llm_calls io1 = llm_calls io"
    using run_tool_calls_calls[of P B "the (tool_calls m)" "h @ [m]"
        "s @ [Pipeline ''mcp'' ''active'' ''Routing tool calls via MCP Server'']" io] r by simp
  have e1: "filter is_error s1 = filter is_error s"
    using run_tool_calls_no_error[of P B "the (tool_calls m)" "h @ [m]"
        "s @ [Pipeline ''mcp'' ''active'' ''Routing tool calls via MCP Server'']" io] r by simp
  have "requests_tools B (llm_calls io + 0)" using Suc.prems(2)[rule_format, of 0] by simp
  then obtain nxt where nxt: "backend_message B (llm_calls io) = Some nxt" "has_tool_calls nxt"
    by (auto simp: requests_tools_def split: option.splits)
  let ?io2 = "io1 \<lparr> llm_calls := Suc (llm_calls io1) \<rparr>"
  let ?s2 = "s1 @ [Pipeline ''llm'' ''active'' ''Analyzing tool results'', Status ''thinking'']"
  have c: "callLLM B h1 io1 = (Inr nxt, ?io2)"
    using callLLM_Some[of B io1 nxt h1] nxt(1) c1 by simp
  have step: "tool_loop P B (Suc n) m h s io = tool_loop P B n nxt h1 ?s2 ?io2"
    using Suc.prems(1) r c by (simp add: tool_loop.simps[of P B "Suc n" m])
  have rest: "\<forall>j<n. requests_tools B (llm_calls ?io2 + j)"
  proof (intro allI impI)
    fix j assume "j < n"
    then show "requests_tools B (llm_calls ?io2 + j)"
      using Suc.prems(2)[rule_format, of "Suc j"] c1 by simp
  qed
  from Suc.IH[OF nxt(2) rest, of h1 ?s2] obtain h' s' io' where
    ih: "tool_loop P B n nxt h1 ?s2 ?io2
           = (Inr (if n = 0 then nxt else the (backend_message B (llm_calls ?io2 + n - 1))), h', s', io')"
        "llm_calls io' = llm_calls ?io2 + n" "filter is_error s' = filter is_error ?s2"
    by blast
  have final: "(if n = 0 then nxt else the (backend_message B (llm_calls ?io2 + n - 1)))
      = the (backend_message B (llm_calls io + Suc n - 1))"
    using nxt(1) c1 by (cases n) simp_all
  show ?case
    using step ih final c1 e1 by simp
qed

lemma http_loop_exhaust:
  "has_tool_calls m \<Longrightarrow> \<forall>j<n. requests_tools B (llm_calls io + j) \<Longrightarrow>
   \<exists>h' io'. http_loop P B n m h io
       = (Inr (if n = 0 then m else the (backend_message B (llm_calls io + n - 1))), h', io')"
proof (induction n arbitrary: m h io)
  case 0
  then show ?case by (simp add: http_loop_stop)
next
  case (Suc n)
  obtain h1 io1 where r: "run_tool_calls_http P B (the (tool_calls m)) (h @ [m]) io = (h1, io1)"
    by (cases "run_tool_calls_http P B (the (tool_calls m)) (h @ [m]) io")
  have c1: "llm_calls io1 = llm_calls io"
    using run_tool_calls_http_calls[of P B "the (tool_calls m)" "h @ [m]" io] r by simp
  have "requests_tools B (llm_calls io + 0)" using Suc.prems(2)[rule_format, of 0] by simp
  then obtain nxt where nxt: "backend_message B (llm_calls io) = Some nxt" "has_tool_calls nxt"
    by (auto simp: requests_tools_def split: option.splits)
  let ?io2 = "io1 \<lparr> llm_calls := Suc (llm_calls io1) \<rparr>"
  have c: "callLLM B h1 io1 = (Inr nxt, ?io2)"
    using callLLM_Some[of B io1 nxt h1] nxt(1) c1 by simp
  have step: "http_loop P B (Suc n) m h io = http_loop P B n nxt h1 ?io2"
    using Suc.prems(1) r c by (simp add: http_loop.simps[of P B "Suc n" m])
  have rest: "\<forall>j<n. requests_tools B (llm_calls ?io2 + j)"
  proof (intro allI impI)
    fix j assume "j < n"
    then show "requests_tools B (llm_calls ?io2 + j)"
      using Suc.prems(2)[rule_format, of "Suc j"] c1 by simp
  qed
  from Suc.IH[OF nxt(2) rest, of h1] obtain h' io' where
    ih: "http_loop P B n nxt h1 ?io2
           = (Inr (if n = 0 then nxt else the (backend_message B (llm_calls ?io2 + n - 1))), h', io')"
    by blast
  have final: "(if n = 0 then nxt else the (backend_message B (llm_calls ?io2 + n - 1)))
      = the (backend_message B (llm_calls io + Suc n - 1))"
    using nxt(1) c1 by (cases n) simp_all
  show ?case
    using step ih final by simp
qed

text \<open>
  Claim C9.  When the backend keeps requesting tools through all nine requests of a run,
  the loop stops after the eighth round and the content of the last backend message, empty
  if it has none, is delivered as the final answer: the last envelope is the \<open>response\<close>
  envelope with that content, no \<open>error\<close> envelope is sent, the conversation ends with the
  answer turn, and the HTTP fallback returns a chat response.
\<close>

theorem ceiling_reached_is_a_normal_answer:
  assumes "\<forall>j<9. requests_tools B (llm_calls io + j)"
  shows "last (fst (snd (handleChat P B u ms io)))
           = ResponseEvent (content_or_empty (the (backend_message B (llm_calls io + 8))))
       \<and> filter is_error (fst (snd (handleChat P B u ms io))) = []
       \<and> last (fst (handleChat P B u ms io))
           = answer_turn (content_or_empty (the (backend_message B (llm_calls io + 8))))
       \<and> rounds (fst (snd (handleChat P B u ms io))) = 8
       \<and> fst (onRequest P B (chat_request u) ms io)
           = Inr (ChatResponse (content (the (backend_message B (llm_calls io + 8)))))"
proof -
  let ?h = "ms @ [\<lparr> role = User, content = Some u, tool_call_id = None, tool_calls = None, reasoning_content = None \<rparr>]"
  let ?s = "[Pipeline ''agent'' ''active'' ''Processing your query'', Status ''thinking'',
             Pipeline ''llm'' ''active'' ''Reasoning with GLM-4.7-Flash'']"
  let ?io1 = "io \<lparr> llm_calls := Suc (llm_calls io) \<rparr>"
  let ?final = "the (backend_message B (llm_calls io + 8))"
  have "requests_tools B (llm_calls io + 0)" using assms[rule_format, of 0] by simp
  then obtain first where first: "backend_message B (llm_calls io) = Some first" "has_tool_calls first"
    by (auto simp: requests_tools_def split: option.splits)
  have c: "callLLM B ?h io = (Inr first, ?io1)"
    using first(1) by (rule callLLM_Some)
  have rest: "\<forall>j<8. requests_tools B (llm_calls ?io1 + j)"
  proof (intro allI impI)
    fix j :: nat assume "j < 8"
    then show "requests_tools B (llm_calls ?io1 + j)"
      using assms[rule_format, of "Suc j"] by simp
  qed
  have idx: "(if (8::nat) = 0 then first else the (backend_message B (llm_calls ?io1 + 8 - 1)))
      = ?final"
    by (simp add: add.commute)
  from tool_loop_exhaust[OF first(2) rest, of P ?h ?s] obtain h' s' io' where
    t0: "tool_loop P B 8 first ?h ?s ?io1
          = (Inr (if (8::nat) = 0 then first else the (backend_message B (llm_calls ?io1 + 8 - 1))),
             h', s', io')"
       "llm_calls io' = llm_calls ?io1 + 8" "filter is_error s' = filter is_error ?s"
    by blast
  have t: "tool_loop P B 8 first ?h ?s ?io1 = (Inr ?final, h', s', io')"
       "llm_calls io' = llm_calls io + 9" "filter is_error s' = []"
    using t0 idx by simp_all
  from http_loop_exhaust[OF first(2) rest, of P ?h] obtain g' jo' where
    g0: "http_loop P B 8 first ?h ?io1
          = (Inr (if (8::nat) = 0 then first else the (backend_message B (llm_calls ?io1 + 8 - 1))),
             g', jo')"
    by blast
  have g: "http_loop P B 8 first ?h ?io1 = (Inr ?final, g', jo')"
    using g0 idx by simp
  have chat: "handleChat P B u ms io =
      (h' @ [answer_turn (content_or_empty ?final)],
       s' @ [Pipeline ''done'' ''complete'' ''Response ready'', ResponseEvent (content_or_empty ?final)],
       io')"
    using c t(1) by (simp add: handleChat_def answer_turn_def)
  have "rounds (fst (snd (handleChat P B u ms io))) = 8"
    using handleChat_bound[of P B u ms io] chat t(2) by simp
  moreover have "fst (onRequest P B (chat_request u) ms io) = Inr (ChatResponse (content ?final))"
    using c g by (simp add: onRequest_def chat_request_def)
  ultimately show ?thesis
    using chat t(3) by simp
qed

theorem ceiling_reached_is_a_normal_answer_witness:
  "last (fst (snd (handleChat (sample_platform no_product_source) eager_backend
                     ''look up 1'' [] fresh_io))) = ResponseEvent ''Working on it''
   \<and> rounds (fst (snd (handleChat (sample_platform no_product_source) eager_backend
                     ''look up 1'' [] fresh_io))) = 8
   \<and> fst (onRequest (sample_platform no_product_source) eager_backend
            (chat_request ''look up 1'') [] fresh_io) = Inr (ChatResponse (Some ''Working on it''))"
proof -
  have m: "\<And>k. backend_message eager_backend k
      = Some \<lparr> role = Assistant, content = Some ''Working on it'', tool_call_id = None,
               tool_calls = Some [lookup_call ''call''], reasoning_content = None \<rparr>"
    by (simp add: backend_message_def eager_backend_def ok_def normalise_def asks_for_def
          truthy_str_def)
  have "\<forall>j<9. requests_tools eager_backend (llm_calls fresh_io + j)"
    by (simp add: requests_tools_def m has_tool_calls_def)
  from ceiling_reached_is_a_normal_answer [OF this, of "sample_platform no_product_source"
      "''look up 1''" "[]"]
  show ?thesis by (simp add: m content_or_empty_def)
qed


lemma normalise_content:
  "truthy_str (content raw) \<or> reasoning_content raw = None \<Longrightarrow>
   content (normalise raw) = content raw"
  by (auto simp: normalise_def truthy_str_def)


lemma normalise_forget: "normalise (forget (normalise m)) = forget (normalise m)"
  by (simp add: normalise_def forget_def truthy_str_def)

lemma backend_message_forgetful:
  "backend_message (forgetful B) k = map_option forget (backend_message B k)"
  by (auto simp: backend_message_def forgetful_def normalise_forget
        split: llm_result.splits sum.splits list.splits)

























end
